theory Spec2Isabelle
  imports Complex_Main "HOL-Library.Word"
begin

section \<open>The command layer of the bloom and cuckoo filter module (rebloom.c)\<close>

text \<open>
  The development embeds the command layer of \<^verbatim>\<open>src/rebloom.c\<close>: the key lookup
  (\<^verbatim>\<open>getValue\<close>), the commands \<^verbatim>\<open>BF.RESERVE\<close>, \<^verbatim>\<open>BF.ADD\<close>, \<^verbatim>\<open>BF.MADD\<close>,
  \<^verbatim>\<open>BF.EXISTS\<close>, \<^verbatim>\<open>BF.MEXISTS\<close>, \<^verbatim>\<open>BF.SCANDUMP\<close>, \<^verbatim>\<open>BF.LOADCHUNK\<close>,
  \<^verbatim>\<open>CF.RESERVE\<close>, \<^verbatim>\<open>CF.ADD\<close>,
  \<^verbatim>\<open>CF.ADDNX\<close>, \<^verbatim>\<open>CF.EXISTS\<close>, \<^verbatim>\<open>CF.MEXISTS\<close>, \<^verbatim>\<open>CF.COUNT\<close>, \<^verbatim>\<open>CF.DEBUG\<close>, the
  RDB save and load callbacks of both types, the AOF rewrite of the bloom chain and the
  option parsing of \<^verbatim>\<open>RedisModule_OnLoad\<close>.

  A command is a function from the keyspace and the argument vector to the new keyspace
  and the sequence of \<^verbatim>\<open>RedisModule_ReplyWith...\<close> calls it makes, in order. The calls
  \<^verbatim>\<open>RedisModule_AutoMemory\<close> and \<^verbatim>\<open>RedisModule_ReplicateVerbatim\<close> and the integer a
  command returns to the host touch neither and are left out.
\<close>

subsection \<open>Values, keys and replies\<close>

text \<open>
  \<^verbatim>\<open>struct bloom\<close>, \<^verbatim>\<open>SBLink\<close>, \<^verbatim>\<open>SBChain\<close> (sb.h) and \<^verbatim>\<open>CuckooFilter\<close> (cf.h) are
  declared outside rebloom.c; the records hold the fields rebloom.c reads and writes.
  \<^verbatim>\<open>entries\<close> and \<^verbatim>\<open>hashes\<close> are printed with \<^verbatim>\<open>%u\<close> by \<^verbatim>\<open>BF.DEBUG\<close> and are 32 bits
  wide, \<^verbatim>\<open>bits\<close> and \<^verbatim>\<open>bytes\<close> are printed with \<^verbatim>\<open>%llu\<close> and are 64 bits wide;
  \<^verbatim>\<open>n2\<close>, an exponent of two, is taken as one byte. A \<^verbatim>\<open>char\<close> buffer is a
  \<open>string\<close>. A \<^verbatim>\<open>double\<close> is modelled by the real number it denotes, and the decimal
  literal 0.01 by the real it names: rebloom.c compares doubles with 0, stores them and
  passes them on, all of which is exact on the value. The one arithmetic operation it
  performs on doubles, the product in \<^verbatim>\<open>BFRdbLoad\<close>, is rounded by the machine and is a
  parameter of the loader.
\<close>

record bloom =
  entries :: "32 word"
  error :: real
  hashes :: "32 word"
  bpe :: real
  bits :: "64 word"
  n2 :: "8 word"
  bytes :: "64 word"
  bf :: string

record SBLink =
  inner :: bloom
  size_link :: "64 word"

record SBChain =
  filters :: "SBLink list"
  size_chain :: "64 word"
  nfilters :: "64 word"

record CuckooFilter =
  numBuckets :: "64 word"
  numItems :: "64 word"
  numDeletes :: "64 word"
  numFilters :: "64 word"
  filters_cf :: "string list"

datatype CuckooInsertStatus = CuckooInsert_Inserted | CuckooInsert_Exists | CuckooInsert_NoSpace

text \<open>
  What a key holds: a bloom chain, a cuckoo filter pointer (which \<^verbatim>\<open>cfCreate\<close> can set
  to \<^verbatim>\<open>NULL\<close>), or a value of any other type. An absent key is \<open>None\<close> in the keyspace.
\<close>

datatype rvalue = BFValue SBChain | CFValue "CuckooFilter option" | OtherValue

datatype RedisModuleType = BFType | CFType

type_synonym keyspace = "string \<Rightarrow> rvalue option"

datatype reply =
    ReplyWithError string
  | ReplyWithSimpleString string
  | ReplyWithLongLong int
  | ReplyWithArray int
  | ReplyWithString string
  | WrongArity

datatype fault = NullDereference | AssertionFailed | OutOfBounds | RdbLoadError | UndefinedConversion

type_synonym cmd_result = "fault + keyspace \<times> reply list"

fun is_error_reply :: "reply \<Rightarrow> bool" where
  "is_error_reply (ReplyWithError _) = True"
| "is_error_reply WrongArity = True"
| "is_error_reply _ = False"

text \<open>
  \<^verbatim>\<open>RedisModule_OpenKey\<close>: a key opened for reading only is \<^verbatim>\<open>NULL\<close> when it does not
  exist; a key opened for writing is a handle on an empty key. The handle is the value
  found under the name.
\<close>

definition RedisModule_OpenKey :: "keyspace \<Rightarrow> string \<Rightarrow> bool \<Rightarrow> rvalue option option" where
  "RedisModule_OpenKey ks name writable =
     (case ks name of
        None \<Rightarrow> if writable then Some None else None
      | Some v \<Rightarrow> Some (Some v))"

text \<open>
  Modelled from the spec: \<^verbatim>\<open>REDISMODULE_ERRORMSG_WRONGTYPE\<close> is a macro of the host's
  header redismodule.h, which is not among the sources. The spec names the error string
  ``WRONGTYPE ...'', given here with the host's text. \<^verbatim>\<open>REDISMODULE_OK\<close> is a macro of
  the same header, and neither the sources nor the spec give its number: it is a parameter
  of \<^verbatim>\<open>CFInfo_RedisCommand\<close>, the one command that compares a status with it.
  \<^verbatim>\<open>UINT32_MAX\<close> is the constant of \<^verbatim>\<open>stdint.h\<close>.
\<close>

definition REDISMODULE_ERRORMSG_WRONGTYPE :: string where
  "REDISMODULE_ERRORMSG_WRONGTYPE =
     ''WRONGTYPE Operation against a key holding the wrong kind of value''"

definition UINT32_MAX :: int where
  "UINT32_MAX = 4294967295"

subsection \<open>Characters, numbers and strings of the host\<close>

definition toupper :: "char \<Rightarrow> char" where
  "toupper c =
     (case map_of (zip ''abcdefghijklmnopqrstuvwxyz'' ''ABCDEFGHIJKLMNOPQRSTUVWXYZ'') c of
        Some u \<Rightarrow> u
      | None \<Rightarrow> c)"

definition tolower :: "char \<Rightarrow> char" where
  "tolower c =
     (case map_of (zip ''ABCDEFGHIJKLMNOPQRSTUVWXYZ'' ''abcdefghijklmnopqrstuvwxyz'') c of
        Some l \<Rightarrow> l
      | None \<Rightarrow> c)"

definition digit_val :: "char \<Rightarrow> nat option" where
  "digit_val c = map_of (zip ''0123456789'' [0, 1, 2, 3, 4, 5, 6, 7, 8, 9]) c"

fun digits_val :: "nat \<Rightarrow> string \<Rightarrow> nat option" where
  "digits_val acc [] = Some acc"
| "digits_val acc (c # cs) =
     (case digit_val c of
        None \<Rightarrow> None
      | Some d \<Rightarrow> digits_val (10 * acc + d) cs)"

text \<open>
  \<^verbatim>\<open>RedisModule_StringToLongLong\<close> is the host's strict decimal parser: an optional
  minus sign, no leading zero, digits only, and a value that fits 64 signed bits.
  \<open>None\<close> is \<^verbatim>\<open>REDISMODULE_ERR\<close>.
\<close>

definition RedisModule_StringToLongLong :: "string \<Rightarrow> int option" where
  "RedisModule_StringToLongLong s =
     (if s = [] then None
      else if s = ''0'' then Some 0
      else
        let negative = (hd s = CHR ''-'');
            body = (if negative then tl s else s)
        in if body = [] \<or> hd body \<notin> set ''123456789'' then None
           else (case digits_val 0 body of
                   None \<Rightarrow> None
                 | Some v \<Rightarrow>
                     if negative then (if 2 ^ 63 < v then None else Some (- int v))
                     else (if 2 ^ 63 \<le> v then None else Some (int v))))"

function string_of_nat :: "nat \<Rightarrow> string" where
  "string_of_nat n =
     (if n < 10 then [''0123456789'' ! n]
      else string_of_nat (n div 10) @ [''0123456789'' ! (n mod 10)])"
  by pat_completeness auto
termination
  by (relation "measure id") auto

declare string_of_nat.simps [simp del]

text \<open>The decimal text of a \<^verbatim>\<open>long long\<close>, as \<^verbatim>\<open>RedisModule_EmitAOF\<close> writes an \<^verbatim>\<open>l\<close> argument.\<close>

definition string_of_ll :: "int \<Rightarrow> string" where
  "string_of_ll v = (if v < 0 then CHR ''-'' # string_of_nat (nat (- v)) else string_of_nat (nat v))"

subsection \<open>The filter engines, which rebloom.c calls and does not define\<close>

text \<open>
  The functions of sb.c and cf.c and the macros \<^verbatim>\<open>CUCKOO_GEN_HASH\<close> and
  \<^verbatim>\<open>CUCKOO_BKTSIZE\<close> are parameters of the command layer: every theorem below holds
  for all of them. A function that writes through a pointer argument (the filter, or the
  cursor of \<^verbatim>\<open>SBChain_GetEncodedChunk\<close>) returns the new value of the object next to its
  result; \<open>None\<close> is a \<^verbatim>\<open>NULL\<close> result.
\<close>

record engines =
  SB_NewChain :: "64 word \<Rightarrow> real \<Rightarrow> 32 word \<Rightarrow> SBChain option"
  SBChain_Add :: "SBChain \<Rightarrow> string \<Rightarrow> SBChain \<times> int"
  SBChain_Check :: "SBChain \<Rightarrow> string \<Rightarrow> int"
  SBChain_GetEncodedHeader :: "SBChain \<Rightarrow> string"
  SBChain_GetEncodedChunk :: "SBChain \<Rightarrow> int \<Rightarrow> nat \<Rightarrow> string option \<times> int"
  SB_NewChainFromHeader :: "string \<Rightarrow> string + SBChain"
  SBChain_LoadEncodedChunk :: "SBChain \<Rightarrow> int \<Rightarrow> string \<Rightarrow> SBChain \<times> string option"
  CuckooFilter_Init :: "64 word \<Rightarrow> CuckooFilter option"
  CuckooFilter_Insert :: "CuckooFilter \<Rightarrow> 64 word \<Rightarrow> CuckooInsertStatus \<times> CuckooFilter"
  CuckooFilter_Check :: "CuckooFilter \<Rightarrow> 64 word \<Rightarrow> int"
  CuckooFilter_Count :: "CuckooFilter \<Rightarrow> 64 word \<Rightarrow> int"
  CUCKOO_GEN_HASH :: "string \<Rightarrow> 64 word"
  CUCKOO_BKTSIZE :: nat

text \<open>
  Modelled from the spec: \<^verbatim>\<open>CuckooFilter_InsertUnique\<close> is defined in cf.c, which is not
  among the sources. The spec: ``InsertUnique(item): like Insert but first performs Check
  across all sub-filters; if present, return Exists without mutation.''
\<close>

definition CuckooFilter_InsertUnique ::
  "engines \<Rightarrow> CuckooFilter \<Rightarrow> 64 word \<Rightarrow> CuckooInsertStatus \<times> CuckooFilter" where
  "CuckooFilter_InsertUnique e cf hash =
     (if CuckooFilter_Check e cf hash \<noteq> 0 then (CuckooInsert_Exists, cf)
      else CuckooFilter_Insert e cf hash)"

text \<open>
  Modelled from the spec: \<^verbatim>\<open>SB_CHUNKITER_INIT\<close> is a macro of sb.h. The spec: ``Cursor
  value 0 = send header; loader writes header and returns sentinel 1.''
\<close>

definition SB_CHUNKITER_INIT :: int where
  "SB_CHUNKITER_INIT = 1"

definition MAX_SCANDUMP_SIZE :: nat where
  "MAX_SCANDUMP_SIZE = 10485760"

subsection \<open>Module state and key lookup\<close>

record config =
  BFDefaultErrorRate :: real
  BFDefaultInitCapacity :: "64 word"
  CFDefaultInitCapacity :: "64 word"

definition initial_config :: config where
  "initial_config =
     \<lparr>BFDefaultErrorRate = 0.01, BFDefaultInitCapacity = 100, CFDefaultInitCapacity = 1000\<rparr>"

definition SB_OK :: int where "SB_OK = 0"
definition SB_MISSING :: int where "SB_MISSING = 1"
definition SB_EMPTY :: int where "SB_EMPTY = 2"
definition SB_MISMATCH :: int where "SB_MISMATCH = 3"

fun type_of_value :: "rvalue \<Rightarrow> RedisModuleType option" where
  "type_of_value (BFValue _) = Some BFType"
| "type_of_value (CFValue _) = Some CFType"
| "type_of_value OtherValue = None"

definition getValue :: "rvalue option option \<Rightarrow> RedisModuleType \<Rightarrow> int \<times> rvalue option" where
  "getValue key expType =
     (case key of
        None \<Rightarrow> (SB_MISSING, None)
      | Some None \<Rightarrow> (SB_EMPTY, None)
      | Some (Some v) \<Rightarrow>
          if type_of_value v = Some expType then (SB_OK, Some v) else (SB_MISMATCH, None))"

definition bfGetChain :: "rvalue option option \<Rightarrow> int \<times> SBChain option" where
  "bfGetChain key =
     (case getValue key BFType of
        (status, Some (BFValue sb)) \<Rightarrow> (status, Some sb)
      | (status, _) \<Rightarrow> (status, None))"

definition cfGetFilter :: "rvalue option option \<Rightarrow> int \<times> CuckooFilter option" where
  "cfGetFilter key =
     (case getValue key CFType of
        (status, Some (CFValue cf)) \<Rightarrow> (status, cf)
      | (status, _) \<Rightarrow> (status, None))"

definition statusStrerror :: "int \<Rightarrow> string" where
  "statusStrerror status =
     (if status = SB_MISSING \<or> status = SB_EMPTY then ''ERR not found''
      else if status = SB_MISMATCH then REDISMODULE_ERRORMSG_WRONGTYPE
      else if status = SB_OK then ''ERR item exists''
      else ''Unknown error'')"

text \<open>
  \<^verbatim>\<open>bfCreateChain\<close> stores the chain only when it was created; \<^verbatim>\<open>cfCreate\<close> stores the
  pointer in both cases, so a failed \<^verbatim>\<open>CuckooFilter_Init\<close> leaves a \<^verbatim>\<open>NULL\<close> filter
  under the key. The key handle is written through by its name.
\<close>

definition bfCreateChain ::
  "engines \<Rightarrow> keyspace \<Rightarrow> string \<Rightarrow> real \<Rightarrow> 64 word \<Rightarrow> keyspace \<times> SBChain option" where
  "bfCreateChain e ks key error_rate capacity =
     (case SB_NewChain e capacity error_rate 0 of
        None \<Rightarrow> (ks, None)
      | Some sb \<Rightarrow> (ks(key \<mapsto> BFValue sb), Some sb))"

definition cfCreate ::
  "engines \<Rightarrow> keyspace \<Rightarrow> string \<Rightarrow> 64 word \<Rightarrow> keyspace \<times> CuckooFilter option" where
  "cfCreate e ks key capacity =
     (case CuckooFilter_Init e capacity of
        None \<Rightarrow> (ks(key \<mapsto> CFValue None), None)
      | Some cf \<Rightarrow> (ks(key \<mapsto> CFValue (Some cf)), Some cf))"

definition isMulti :: "string \<Rightarrow> bool" where
  "isMulti s = (case drop 3 s of [] \<Rightarrow> False | c # _ \<Rightarrow> c = CHR ''m'' \<or> c = CHR ''M'')"

definition isCount :: "string \<Rightarrow> bool" where
  "isCount s = (s \<noteq> [] \<and> toupper (last s) = CHR ''T'')"

definition emit :: "reply \<Rightarrow> fault + reply list \<Rightarrow> fault + reply list" where
  "emit r rest = (case rest of Inl f \<Rightarrow> Inl f | Inr rs \<Rightarrow> Inr (r # rs))"

subsection \<open>Bloom chain commands\<close>

definition BFReserve_RedisCommand ::
  "engines \<Rightarrow> (string \<Rightarrow> real option) \<Rightarrow> keyspace \<Rightarrow> string list \<Rightarrow> cmd_result" where
  "BFReserve_RedisCommand e StringToDouble ks argv =
     (if length argv \<noteq> 4 then Inr (ks, [WrongArity])
      else
        case StringToDouble (argv ! 2) of
          None \<Rightarrow> Inr (ks, [ReplyWithError ''ERR bad error rate''])
        | Some error_rate \<Rightarrow>
            (case RedisModule_StringToLongLong (argv ! 3) of
               None \<Rightarrow> Inr (ks, [ReplyWithError ''ERR bad capacity''])
             | Some capacity \<Rightarrow>
                 if UINT32_MAX \<le> capacity then Inr (ks, [ReplyWithError ''ERR bad capacity''])
                 else if error_rate = 0 \<or> capacity = 0
                 then Inr (ks, [ReplyWithError ''ERR capacity and error must not be 0''])
                 else
                   let key = RedisModule_OpenKey ks (argv ! 1) True;
                       (status, sb) = bfGetChain key
                   in if status \<noteq> SB_EMPTY
                      then Inr (ks, [ReplyWithError (statusStrerror status)])
                      else
                        (case bfCreateChain e ks (argv ! 1) error_rate (word_of_int capacity) of
                           (ks', None) \<Rightarrow>
                             Inr (ks', [ReplyWithSimpleString ''ERR could not create filter''])
                         | (ks', Some _) \<Rightarrow> Inr (ks', [ReplyWithSimpleString ''OK'']))))"

fun BFCheck_loop :: "engines \<Rightarrow> SBChain option \<Rightarrow> bool \<Rightarrow> string list \<Rightarrow> fault + reply list" where
  "BFCheck_loop e sb is_empty [] = Inr []"
| "BFCheck_loop e sb is_empty (s # rest) =
     (if is_empty then emit (ReplyWithLongLong 0) (BFCheck_loop e sb is_empty rest)
      else
        case sb of
          None \<Rightarrow> Inl NullDereference
        | Some chain \<Rightarrow>
            emit (ReplyWithLongLong (SBChain_Check e chain s)) (BFCheck_loop e sb is_empty rest))"

definition BFCheck_RedisCommand :: "engines \<Rightarrow> keyspace \<Rightarrow> string list \<Rightarrow> cmd_result" where
  "BFCheck_RedisCommand e ks argv =
     (let is_multi = isMulti (argv ! 0)
      in if (\<not> is_multi \<and> length argv \<noteq> 3) \<or> (is_multi \<and> length argv < 3)
         then Inr (ks, [WrongArity])
         else
           let key = RedisModule_OpenKey ks (argv ! 1) False;
               (status, sb) = bfGetChain key;
               is_empty = (status \<noteq> SB_OK)
           in case BFCheck_loop e sb is_empty (drop 2 argv) of
                Inl f \<Rightarrow> Inl f
              | Inr rs \<Rightarrow>
                  Inr (ks, (if is_multi then [ReplyWithArray (int (length argv) - 2)] else []) @ rs))"

fun BFAdd_loop :: "engines \<Rightarrow> SBChain \<Rightarrow> string list \<Rightarrow> SBChain \<times> reply list" where
  "BFAdd_loop e sb [] = (sb, [])"
| "BFAdd_loop e sb (s # rest) =
     (let (sb1, rv) = SBChain_Add e sb s;
          (sb2, rs) = BFAdd_loop e sb1 rest
      in (sb2, ReplyWithLongLong (if rv \<noteq> 0 then 1 else 0) # rs))"

definition BFAdd_items ::
  "engines \<Rightarrow> keyspace \<Rightarrow> string list \<Rightarrow> bool \<Rightarrow> SBChain \<Rightarrow> cmd_result" where
  "BFAdd_items e ks argv is_multi sb =
     (let (sb', rs) = BFAdd_loop e sb (drop 2 argv)
      in Inr (ks(argv ! 1 \<mapsto> BFValue sb'),
              (if is_multi then [ReplyWithArray (int (length argv) - 2)] else []) @ rs))"

definition BFAdd_RedisCommand :: "engines \<Rightarrow> config \<Rightarrow> keyspace \<Rightarrow> string list \<Rightarrow> cmd_result" where
  "BFAdd_RedisCommand e cfg ks argv =
     (let is_multi = isMulti (argv ! 0)
      in if (is_multi \<and> length argv < 3) \<or> (\<not> is_multi \<and> length argv \<noteq> 3)
         then Inr (ks, [WrongArity])
         else
           let key = RedisModule_OpenKey ks (argv ! 1) True;
               (status, sb) = bfGetChain key
           in if status = SB_EMPTY
              then
                (case bfCreateChain e ks (argv ! 1) (BFDefaultErrorRate cfg)
                        (BFDefaultInitCapacity cfg) of
                   (ks', None) \<Rightarrow> Inr (ks', [ReplyWithError ''ERR could not create filter''])
                 | (ks', Some created) \<Rightarrow> BFAdd_items e ks' argv is_multi created)
              else if status \<noteq> SB_OK then Inr (ks, [ReplyWithError (statusStrerror status)])
              else
                (case sb of
                   None \<Rightarrow> Inl NullDereference
                 | Some chain \<Rightarrow> BFAdd_items e ks argv is_multi chain))"

text \<open>
  \<^verbatim>\<open>BF.SCANDUMP\<close>: with cursor 0 the header, next to \<^verbatim>\<open>SB_CHUNKITER_INIT\<close>; otherwise
  the chunk at the cursor, next to the cursor the iterator leaves. A \<^verbatim>\<open>NULL\<close> chunk is
  replied as the empty buffer.
\<close>

definition BFScanDump_RedisCommand :: "engines \<Rightarrow> keyspace \<Rightarrow> string list \<Rightarrow> cmd_result" where
  "BFScanDump_RedisCommand e ks argv =
     (if length argv \<noteq> 3 then Inr (ks, [WrongArity])
      else
        let key = RedisModule_OpenKey ks (argv ! 1) False;
            (status, sb) = bfGetChain key
        in if status \<noteq> SB_OK then Inr (ks, [ReplyWithError (statusStrerror status)])
           else
             (case RedisModule_StringToLongLong (argv ! 2) of
                None \<Rightarrow> Inr (ks, [ReplyWithError ''Second argument must be numeric''])
              | Some iter \<Rightarrow>
                  (case sb of
                     None \<Rightarrow> Inl NullDereference
                   | Some chain \<Rightarrow>
                       if iter = 0
                       then Inr (ks, [ReplyWithArray 2, ReplyWithLongLong SB_CHUNKITER_INIT,
                                      ReplyWithString (SBChain_GetEncodedHeader e chain)])
                       else
                         (case SBChain_GetEncodedChunk e chain iter MAX_SCANDUMP_SIZE of
                            (buf, iter') \<Rightarrow>
                              Inr (ks, [ReplyWithArray 2, ReplyWithLongLong iter',
                                        ReplyWithString (case buf of None \<Rightarrow> [] | Some b \<Rightarrow> b)])))))"

definition BFLoadChunk_RedisCommand :: "engines \<Rightarrow> keyspace \<Rightarrow> string list \<Rightarrow> cmd_result" where
  "BFLoadChunk_RedisCommand e ks argv =
     (if length argv \<noteq> 4 then Inr (ks, [WrongArity])
      else
        case RedisModule_StringToLongLong (argv ! 2) of
          None \<Rightarrow> Inr (ks, [ReplyWithError ''ERR Second argument must be numeric''])
        | Some iter \<Rightarrow>
            let buf = argv ! 3;
                key = RedisModule_OpenKey ks (argv ! 1) True;
                (status, sb) = bfGetChain key
            in if status = SB_EMPTY \<and> iter = 1
               then
                 (case SB_NewChainFromHeader e buf of
                    Inl errmsg \<Rightarrow> Inr (ks, [ReplyWithError errmsg])
                  | Inr loaded \<Rightarrow>
                      Inr (ks(argv ! 1 \<mapsto> BFValue loaded), [ReplyWithSimpleString ''OK'']))
               else if status \<noteq> SB_OK then Inr (ks, [ReplyWithError (statusStrerror status)])
               else
                 (case sb of
                    None \<Rightarrow> Inl AssertionFailed
                  | Some chain \<Rightarrow>
                      (case SBChain_LoadEncodedChunk e chain iter buf of
                         (chain', Some errMsg) \<Rightarrow>
                           Inr (ks(argv ! 1 \<mapsto> BFValue chain'), [ReplyWithError errMsg])
                       | (chain', None) \<Rightarrow>
                           Inr (ks(argv ! 1 \<mapsto> BFValue chain'), [ReplyWithSimpleString ''OK'']))))"

text \<open>
  \<^verbatim>\<open>BFAofRewrite\<close> emits commands; an emitted command is its argument vector, the
  \<^verbatim>\<open>l\<close> argument in decimal. The loop runs until the iterator returns \<^verbatim>\<open>NULL\<close>; a run
  that never ends is \<open>None\<close>.
\<close>

partial_function (option) BFAofRewrite_loop ::
  "engines \<Rightarrow> string \<Rightarrow> SBChain \<Rightarrow> int \<Rightarrow> string list list \<Rightarrow> string list list option" where
  "BFAofRewrite_loop e key sb iter emitted =
     (case SBChain_GetEncodedChunk e sb iter MAX_SCANDUMP_SIZE of
        (None, iter') \<Rightarrow> Some emitted
      | (Some chunk, iter') \<Rightarrow>
          BFAofRewrite_loop e key sb iter'
            (emitted @ [[''BF.LOADCHUNK'', key, string_of_ll iter', chunk]]))"

definition BFAofRewrite_header :: "engines \<Rightarrow> string \<Rightarrow> SBChain \<Rightarrow> string list" where
  "BFAofRewrite_header e key sb =
     [''BF.LOADCHUNK'', key, string_of_ll 0, SBChain_GetEncodedHeader e sb]"

definition BFAofRewrite :: "engines \<Rightarrow> string \<Rightarrow> SBChain \<Rightarrow> string list list option" where
  "BFAofRewrite e key sb =
     BFAofRewrite_loop e key sb SB_CHUNKITER_INIT [BFAofRewrite_header e key sb]"

subsection \<open>Cuckoo filter commands\<close>

definition CFReserve_RedisCommand :: "engines \<Rightarrow> keyspace \<Rightarrow> string list \<Rightarrow> cmd_result" where
  "CFReserve_RedisCommand e ks argv =
     (if length argv \<noteq> 3 then Inr (ks, [WrongArity])
      else
        case RedisModule_StringToLongLong (argv ! 2) of
          None \<Rightarrow> Inr (ks, [ReplyWithError ''Bad capacity''])
        | Some capacity \<Rightarrow>
            let key = RedisModule_OpenKey ks (argv ! 1) True;
                (status, cf) = cfGetFilter key
            in if status \<noteq> SB_EMPTY then Inr (ks, [ReplyWithError (statusStrerror status)])
               else
                 (case cfCreate e ks (argv ! 1) (word_of_int capacity) of
                    (ks', None) \<Rightarrow> Inr (ks', [ReplyWithError ''Couldn't create Cuckoo Filter''])
                  | (ks', Some _) \<Rightarrow> Inr (ks', [ReplyWithSimpleString ''OK''])))"

text \<open>The part of \<^verbatim>\<open>CFAdd_RedisCommand\<close> after the filter is at hand: hash, insert, reply.\<close>

definition CFAdd_insert ::
  "engines \<Rightarrow> keyspace \<Rightarrow> string list \<Rightarrow> bool \<Rightarrow> CuckooFilter \<Rightarrow> cmd_result" where
  "CFAdd_insert e ks argv isNX cf =
     (let hash = CUCKOO_GEN_HASH e (argv ! 2);
          (insStatus, cf') =
            (if isNX then CuckooFilter_InsertUnique e cf hash else CuckooFilter_Insert e cf hash)
      in Inr (ks(argv ! 1 \<mapsto> CFValue (Some cf')),
              [case insStatus of
                 CuckooInsert_Inserted \<Rightarrow> ReplyWithLongLong 1
               | CuckooInsert_Exists \<Rightarrow> ReplyWithLongLong 0
               | CuckooInsert_NoSpace \<Rightarrow> ReplyWithError ''Filter is full'']))"

definition CFAdd_RedisCommand :: "engines \<Rightarrow> config \<Rightarrow> keyspace \<Rightarrow> string list \<Rightarrow> cmd_result" where
  "CFAdd_RedisCommand e cfg ks argv =
     (let cmdstr = argv ! 0;
          isNX = (cmdstr \<noteq> [] \<and> tolower (last cmdstr) = CHR ''x'')
      in if length argv \<noteq> 3 \<and> length argv \<noteq> 4 then Inr (ks, [WrongArity])
         else
           let key = RedisModule_OpenKey ks (argv ! 1) True;
               (status, cf) = cfGetFilter key
           in if status = SB_EMPTY
              then
                (case (if length argv = 4 then RedisModule_StringToLongLong (argv ! 3)
                       else Some (sint (CFDefaultInitCapacity cfg))) of
                   None \<Rightarrow> Inr (ks, [ReplyWithError ''CAPACITY must be a number''])
                 | Some capacity \<Rightarrow>
                     (case cfCreate e ks (argv ! 1) (word_of_int capacity) of
                        (ks', None) \<Rightarrow> Inr (ks', [ReplyWithError ''Could not create filter''])
                      | (ks', Some created) \<Rightarrow> CFAdd_insert e ks' argv isNX created))
              else if status \<noteq> SB_OK then Inr (ks, [ReplyWithError (statusStrerror status)])
              else
                (case cf of
                   None \<Rightarrow> Inl NullDereference
                 | Some flt \<Rightarrow> CFAdd_insert e ks argv isNX flt))"

text \<open>
  The loop of \<^verbatim>\<open>CFCheck_RedisCommand\<close>: its body ends with \<^verbatim>\<open>return REDISMODULE_OK\<close>,
  so the command returns after the first item and the loop never reaches a second one.
\<close>

fun CFCheck_loop ::
  "engines \<Rightarrow> CuckooFilter option \<Rightarrow> bool \<Rightarrow> bool \<Rightarrow> string list \<Rightarrow> fault + reply list" where
  "CFCheck_loop e cf is_empty is_count [] = Inr []"
| "CFCheck_loop e cf is_empty is_count (s # rest) =
     (if is_empty then Inr [ReplyWithLongLong 0]
      else
        case cf of
          None \<Rightarrow> Inl NullDereference
        | Some flt \<Rightarrow>
            let hash = CUCKOO_GEN_HASH e s;
                rv = (if is_count then CuckooFilter_Count e flt hash
                      else CuckooFilter_Check e flt hash)
            in Inr [ReplyWithLongLong rv])"

definition CFCheck_RedisCommand :: "engines \<Rightarrow> keyspace \<Rightarrow> string list \<Rightarrow> cmd_result" where
  "CFCheck_RedisCommand e ks argv =
     (let is_multi = isMulti (argv ! 0);
          is_count = isCount (argv ! 0)
      in if (\<not> is_multi \<and> length argv \<noteq> 3) \<or> (is_multi \<and> length argv < 3)
         then Inr (ks, [WrongArity])
         else
           let key = RedisModule_OpenKey ks (argv ! 1) False;
               (status, cf) = cfGetFilter key;
               is_empty = (status \<noteq> SB_OK)
           in case CFCheck_loop e cf is_empty is_count (drop 2 argv) of
                Inl f \<Rightarrow> Inl f
              | Inr rs \<Rightarrow>
                  Inr (ks, (if is_multi then [ReplyWithArray (int (length argv) - 2)] else []) @ rs))"

definition CFInfo_text :: "engines \<Rightarrow> CuckooFilter \<Rightarrow> string" where
  "CFInfo_text e cf =
     ''bktsize:'' @ string_of_nat (CUCKOO_BKTSIZE e) @
     '' buckets:'' @ string_of_nat (unat (numBuckets cf)) @
     '' items:'' @ string_of_nat (unat (numItems cf)) @
     '' deletes:'' @ string_of_nat (unat (numDeletes cf)) @
     '' filters:'' @ string_of_nat (unat (numFilters cf))"

definition CFInfo_RedisCommand ::
  "engines \<Rightarrow> int \<Rightarrow> keyspace \<Rightarrow> string list \<Rightarrow> cmd_result" where
  "CFInfo_RedisCommand e REDISMODULE_OK ks argv =
     (if length argv \<noteq> 2 then Inr (ks, [WrongArity])
      else
        let key = RedisModule_OpenKey ks (argv ! 1) False;
            (status, cf) = cfGetFilter key
        in if status \<noteq> REDISMODULE_OK then Inr (ks, [ReplyWithError (statusStrerror status)])
           else
             (case cf of
                None \<Rightarrow> Inl NullDereference
              | Some flt \<Rightarrow> Inr (ks, [ReplyWithString (CFInfo_text e flt)])))"

text \<open>
  The guard the spec intends for \<^verbatim>\<open>CF.DEBUG\<close>, ``filter present, i.e. status == OK'':
  the same command with the status compared to \<^verbatim>\<open>SB_OK\<close>.
\<close>

definition CFInfo_intended :: "engines \<Rightarrow> keyspace \<Rightarrow> string list \<Rightarrow> cmd_result" where
  "CFInfo_intended e ks argv =
     (if length argv \<noteq> 2 then Inr (ks, [WrongArity])
      else
        let key = RedisModule_OpenKey ks (argv ! 1) False;
            (status, cf) = cfGetFilter key
        in if status \<noteq> SB_OK then Inr (ks, [ReplyWithError (statusStrerror status)])
           else
             (case cf of
                None \<Rightarrow> Inl NullDereference
              | Some flt \<Rightarrow> Inr (ks, [ReplyWithString (CFInfo_text e flt)])))"

subsection \<open>RDB snapshots\<close>

text \<open>
  A snapshot is the sequence of values written by the \<^verbatim>\<open>RedisModule_Save...\<close> calls; a
  \<^verbatim>\<open>RedisModule_Load...\<close> call takes the next value, and a value of another kind or the
  end of the snapshot is a load error.
\<close>

datatype rdb_value = RdbUnsigned "64 word" | RdbDouble real | RdbStringBuffer string

type_synonym RedisModuleIO = "rdb_value list"

definition BF_ENCODING_VERSION :: int where
  "BF_ENCODING_VERSION = 1"

fun RedisModule_LoadUnsigned :: "RedisModuleIO \<Rightarrow> fault + 64 word \<times> RedisModuleIO" where
  "RedisModule_LoadUnsigned (RdbUnsigned v # io) = Inr (v, io)"
| "RedisModule_LoadUnsigned _ = Inl RdbLoadError"

fun RedisModule_LoadDouble :: "RedisModuleIO \<Rightarrow> fault + real \<times> RedisModuleIO" where
  "RedisModule_LoadDouble (RdbDouble d # io) = Inr (d, io)"
| "RedisModule_LoadDouble _ = Inl RdbLoadError"

fun RedisModule_LoadStringBuffer :: "RedisModuleIO \<Rightarrow> fault + string \<times> RedisModuleIO" where
  "RedisModule_LoadStringBuffer (RdbStringBuffer b # io) = Inr (b, io)"
| "RedisModule_LoadStringBuffer _ = Inl RdbLoadError"

definition then_load ::
  "fault + 'a \<times> RedisModuleIO \<Rightarrow> ('a \<Rightarrow> RedisModuleIO \<Rightarrow> fault + 'b) \<Rightarrow> fault + 'b" where
  "then_load m k = (case m of Inl f \<Rightarrow> Inl f | Inr (v, io) \<Rightarrow> k v io)"

text \<open>
  The conversion of a \<^verbatim>\<open>double\<close> to an unsigned 64-bit integer truncates towards zero;
  outside the range of the target type C leaves it undefined. The conversion of the 32-bit
  \<^verbatim>\<open>entries\<close> to \<^verbatim>\<open>double\<close> is exact.
\<close>

definition double_to_uint64 :: "real \<Rightarrow> fault + 64 word" where
  "double_to_uint64 x =
     (if x \<le> - 1 \<or> 2 ^ 64 \<le> x then Inl UndefinedConversion
      else Inr (word_of_int (if x < 0 then 0 else \<lfloor>x\<rfloor>)))"

definition zero_bloom :: bloom where
  "zero_bloom =
     \<lparr>entries = 0, error = 0, hashes = 0, bpe = 0, bits = 0, n2 = 0, bytes = 0, bf = []\<rparr>"

definition BFRdbSave_link :: "SBLink \<Rightarrow> RedisModuleIO" where
  "BFRdbSave_link lb =
     (let bm = inner lb
      in [RdbUnsigned (ucast (entries bm)), RdbDouble (error bm), RdbUnsigned (ucast (hashes bm)),
          RdbDouble (bpe bm), RdbUnsigned (bits bm), RdbUnsigned (ucast (n2 bm)),
          RdbStringBuffer (take (unat (bytes bm)) (bf bm)), RdbUnsigned (size_link lb)])"

definition BFRdbSave :: "SBChain \<Rightarrow> fault + RedisModuleIO" where
  "BFRdbSave sb =
     (if length (filters sb) < unat (nfilters sb)
         \<or> (\<exists>lb \<in> set (take (unat (nfilters sb)) (filters sb)).
               length (bf (inner lb)) < unat (bytes (inner lb)))
      then Inl OutOfBounds
      else Inr ([RdbUnsigned (size_chain sb), RdbUnsigned (nfilters sb)] @
                concat (map BFRdbSave_link (take (unat (nfilters sb)) (filters sb)))))"

text \<open>
  One pass of the loop of \<^verbatim>\<open>BFRdbLoad\<close>. The link comes from \<^verbatim>\<open>RedisModule_Calloc\<close>,
  so a field the pass does not assign stays zero. \<open>double_mul\<close> is the multiplication of
  two doubles as the machine performs it, with its rounding; the loader and its theorems
  are stated for every such function.
\<close>

definition BFRdbLoad_link ::
  "(real \<Rightarrow> real \<Rightarrow> real) \<Rightarrow> int \<Rightarrow> RedisModuleIO \<Rightarrow> fault + SBLink \<times> RedisModuleIO" where
  "BFRdbLoad_link double_mul encver io0 =
     then_load (RedisModule_LoadUnsigned io0) (\<lambda>v_entries io1.
     then_load (RedisModule_LoadDouble io1) (\<lambda>v_error io2.
     then_load (RedisModule_LoadUnsigned io2) (\<lambda>v_hashes io3.
     then_load (RedisModule_LoadDouble io3) (\<lambda>v_bpe io4.
       let bm = zero_bloom\<lparr>entries := ucast v_entries, error := v_error,
                            hashes := ucast v_hashes, bpe := v_bpe\<rparr>
       in then_load
            (if encver = 0
             then (case double_to_uint64 (double_mul (real (unat (entries bm))) (bpe bm)) of
                     Inl f \<Rightarrow> Inl f
                   | Inr b \<Rightarrow> Inr (bm\<lparr>bits := b\<rparr>, io4))
             else then_load (RedisModule_LoadUnsigned io4) (\<lambda>v_bits io5.
                  then_load (RedisModule_LoadUnsigned io5) (\<lambda>v_n2 io6.
                    Inr (bm\<lparr>bits := v_bits, n2 := ucast v_n2\<rparr>, io6))))
            (\<lambda>bm' io7.
     then_load (RedisModule_LoadStringBuffer io7) (\<lambda>buf io8.
     then_load (RedisModule_LoadUnsigned io8) (\<lambda>v_size io9.
       Inr (\<lparr>inner = bm'\<lparr>bf := buf, bytes := word_of_nat (length buf)\<rparr>, size_link = v_size\<rparr>,
            io9))))))))"

fun BFRdbLoad_loop ::
  "(real \<Rightarrow> real \<Rightarrow> real) \<Rightarrow> int \<Rightarrow> nat \<Rightarrow> RedisModuleIO \<Rightarrow>
     fault + SBLink list \<times> RedisModuleIO" where
  "BFRdbLoad_loop double_mul encver 0 io = Inr ([], io)"
| "BFRdbLoad_loop double_mul encver (Suc n) io =
     then_load (BFRdbLoad_link double_mul encver io) (\<lambda>lb io1.
     then_load (BFRdbLoad_loop double_mul encver n io1) (\<lambda>lbs io2. Inr (lb # lbs, io2)))"

text \<open>The result \<open>None\<close> is the \<^verbatim>\<open>NULL\<close> the callback returns when it refuses the version.\<close>

definition BFRdbLoad ::
  "(real \<Rightarrow> real \<Rightarrow> real) \<Rightarrow> RedisModuleIO \<Rightarrow> int \<Rightarrow>
     fault + SBChain option \<times> RedisModuleIO" where
  "BFRdbLoad double_mul io encver =
     (if BF_ENCODING_VERSION < encver then Inr (None, io)
      else
        then_load (RedisModule_LoadUnsigned io) (\<lambda>v_size io1.
        then_load (RedisModule_LoadUnsigned io1) (\<lambda>v_nfilters io2.
          if \<not> v_nfilters < 1000 then Inl AssertionFailed
          else
            then_load (BFRdbLoad_loop double_mul encver (unat v_nfilters) io2) (\<lambda>lbs io3.
              Inr (Some \<lparr>filters = lbs, size_chain = v_size, nfilters = v_nfilters\<rparr>, io3)))))"

text \<open>
  A cuckoo bucket is an array of \<^verbatim>\<open>CUCKOO_BKTSIZE\<close> one-byte fingerprints, so
  \<^verbatim>\<open>sizeof(CuckooBucket)\<close> is \<^verbatim>\<open>CUCKOO_BKTSIZE\<close>; the product with \<^verbatim>\<open>numBuckets\<close> is
  computed in \<^verbatim>\<open>size_t\<close>.
\<close>

definition bucket_array_bytes :: "engines \<Rightarrow> CuckooFilter \<Rightarrow> nat" where
  "bucket_array_bytes e cf = unat (numBuckets cf * word_of_nat (CUCKOO_BKTSIZE e))"

definition CFRdbSave :: "engines \<Rightarrow> CuckooFilter \<Rightarrow> fault + RedisModuleIO" where
  "CFRdbSave e cf =
     (if length (filters_cf cf) < unat (numFilters cf)
         \<or> (\<exists>b \<in> set (take (unat (numFilters cf)) (filters_cf cf)).
               length b < bucket_array_bytes e cf)
      then Inl OutOfBounds
      else Inr ([RdbUnsigned (numFilters cf), RdbUnsigned (numBuckets cf),
                 RdbUnsigned (numItems cf)] @
                map (\<lambda>b. RdbStringBuffer (take (bucket_array_bytes e cf) b))
                  (take (unat (numFilters cf)) (filters_cf cf))))"

fun CFRdbLoad_loop ::
  "engines \<Rightarrow> CuckooFilter \<Rightarrow> nat \<Rightarrow> RedisModuleIO \<Rightarrow> fault + string list \<times> RedisModuleIO" where
  "CFRdbLoad_loop e cf 0 io = Inr ([], io)"
| "CFRdbLoad_loop e cf (Suc n) io =
     then_load (RedisModule_LoadStringBuffer io) (\<lambda>buf io1.
       if length buf \<noteq> bucket_array_bytes e cf then Inl AssertionFailed
       else then_load (CFRdbLoad_loop e cf n io1) (\<lambda>bufs io2. Inr (buf # bufs, io2)))"

definition CFRdbLoad ::
  "engines \<Rightarrow> RedisModuleIO \<Rightarrow> int \<Rightarrow> fault + CuckooFilter option \<times> RedisModuleIO" where
  "CFRdbLoad e io encver =
     (if BF_ENCODING_VERSION < encver then Inr (None, io)
      else
        then_load (RedisModule_LoadUnsigned io) (\<lambda>v_numFilters io1.
        then_load (RedisModule_LoadUnsigned io1) (\<lambda>v_numBuckets io2.
        then_load (RedisModule_LoadUnsigned io2) (\<lambda>v_numItems io3.
          let cf = \<lparr>numBuckets = v_numBuckets, numItems = v_numItems, numDeletes = 0,
                    numFilters = v_numFilters, filters_cf = []\<rparr>
          in then_load (CFRdbLoad_loop e cf (unat v_numFilters) io3) (\<lambda>bufs io4.
               Inr (Some (cf\<lparr>filters_cf := bufs\<rparr>), io4))))))"

subsection \<open>Load-time options\<close>

fun strncasecmp :: "string \<Rightarrow> string \<Rightarrow> int" where
  "strncasecmp (a # as) (b # bs) =
     (if tolower a = tolower b then strncasecmp as bs
      else int (of_char (tolower a)) - int (of_char (tolower b)))"
| "strncasecmp _ _ = 0"

definition rsStrcasecmp :: "string \<Rightarrow> string \<Rightarrow> int" where
  "rsStrcasecmp rs1 s2 = (if length s2 \<noteq> length rs1 then - 1 else strncasecmp rs1 s2)"

text \<open>
  The option loop of \<^verbatim>\<open>RedisModule_OnLoad\<close> reads the arguments in pairs; \<open>None\<close> is
  the \<^verbatim>\<open>BAIL\<close> that makes the load fail with \<^verbatim>\<open>REDISMODULE_ERR\<close>.
\<close>

fun OnLoad_options :: "(string \<Rightarrow> real option) \<Rightarrow> config \<Rightarrow> string list \<Rightarrow> config option" where
  "OnLoad_options StringToDouble cfg (name # val # rest) =
     (if rsStrcasecmp name ''initial_size'' = 0
      then (case RedisModule_StringToLongLong val of
              None \<Rightarrow> None
            | Some v \<Rightarrow>
                if 0 < v
                then OnLoad_options StringToDouble (cfg\<lparr>BFDefaultInitCapacity := word_of_int v\<rparr>) rest
                else None)
      else if rsStrcasecmp name ''error_rate'' = 0
      then (case StringToDouble val of
              None \<Rightarrow> None
            | Some d \<Rightarrow>
                if d \<le> 0 then None
                else OnLoad_options StringToDouble (cfg\<lparr>BFDefaultErrorRate := d\<rparr>) rest)
      else None)"
| "OnLoad_options StringToDouble cfg _ = Some cfg"

text \<open>
  The part of \<^verbatim>\<open>RedisModule_OnLoad\<close> that sets the module's defaults; the registration
  of the commands and of the two data types that follows it changes none of them.
\<close>

definition RedisModule_OnLoad ::
  "(string \<Rightarrow> real option) \<Rightarrow> config \<Rightarrow> string list \<Rightarrow> config option" where
  "RedisModule_OnLoad StringToDouble cfg argv =
     (let args = (if length argv = 1 \<and> argv ! 0 = [] then [] else argv)
      in if length args mod 2 \<noteq> 0 then None else OnLoad_options StringToDouble cfg args)"

subsection \<open>Replaying an append-only file\<close>

text \<open>
  The host replays the emitted commands in order, each on the keyspace the one before it
  left; every command \<^verbatim>\<open>BFAofRewrite\<close> emits is a \<^verbatim>\<open>BF.LOADCHUNK\<close>.
\<close>

fun replay_LoadChunk :: "engines \<Rightarrow> keyspace \<Rightarrow> string list list \<Rightarrow> cmd_result" where
  "replay_LoadChunk e ks [] = Inr (ks, [])"
| "replay_LoadChunk e ks (argv # rest) =
     (case BFLoadChunk_RedisCommand e ks argv of
        Inl f \<Rightarrow> Inl f
      | Inr (ks', rs) \<Rightarrow>
          (case replay_LoadChunk e ks' rest of
             Inl f \<Rightarrow> Inl f
           | Inr (ks'', rs') \<Rightarrow> Inr (ks'', rs @ rs')))"

subsection \<open>A small instance of the engines, for running the commands on examples\<close>

text \<open>
  An instance of the parameters on which the commands can be evaluated: a constructor
  that returns the empty chain, an add that counts the items and reports the first one as
  new, an iterator that yields the buffer of the first layer as one chunk, a cuckoo filter
  that reports an item present when its hash is the first byte of its bucket array and has
  no room for an item whose hash is 0, and a parser of the decimal texts the examples use.
  The theorems about the commands hold for all engines; the instance serves the examples,
  the witnesses and the counterexamples.
\<close>

definition example_chain :: SBChain where
  "example_chain =
     \<lparr>filters = [\<lparr>inner = \<lparr>entries = 100, error = 1 / 100, hashes = 7, bpe = 19 / 2, bits = 950,
                           n2 = 0, bytes = 3, bf = ''abc''\<rparr>, size_link = 1\<rparr>],
      size_chain = 1, nfilters = 1\<rparr>"

definition example_filter :: CuckooFilter where
  "example_filter =
     \<lparr>numBuckets = 2, numItems = 1, numDeletes = 5, numFilters = 1, filters_cf = [''a   '']\<rparr>"

definition example_hash :: "string \<Rightarrow> 64 word" where
  "example_hash s = (case s of [] \<Rightarrow> 0 | c # _ \<Rightarrow> of_char c)"

definition example_engines :: engines where
  "example_engines =
     \<lparr>SB_NewChain = (\<lambda>capacity error_rate options.
        Some \<lparr>filters = [], size_chain = 0, nfilters = 0\<rparr>),
      SBChain_Add = (\<lambda>sb item.
        (sb\<lparr>size_chain := size_chain sb + 1\<rparr>, if size_chain sb = 0 then 1 else 0)),
      SBChain_Check = (\<lambda>sb item. if size_chain sb = 0 then 0 else 1),
      SBChain_GetEncodedHeader = (\<lambda>sb. ''header''),
      SBChain_GetEncodedChunk = (\<lambda>sb iter maxlen.
        if iter = 1
        then (case filters sb of [] \<Rightarrow> (None, iter) | lb # _ \<Rightarrow> (Some (bf (inner lb)), 2))
        else (None, iter)),
      SB_NewChainFromHeader = (\<lambda>buf.
        if buf = ''header'' then Inr \<lparr>filters = [], size_chain = 0, nfilters = 0\<rparr>
        else Inl ''ERR received bad data''),
      SBChain_LoadEncodedChunk = (\<lambda>sb iter buf. (sb, None)),
      CuckooFilter_Init = (\<lambda>capacity.
        Some \<lparr>numBuckets = 2, numItems = 0, numDeletes = 0, numFilters = 1,
              filters_cf = [''    '']\<rparr>),
      CuckooFilter_Insert = (\<lambda>cf hash.
        if hash = 0 then (CuckooInsert_NoSpace, cf)
        else (CuckooInsert_Inserted, cf\<lparr>numItems := numItems cf + 1\<rparr>)),
      CuckooFilter_Check = (\<lambda>cf hash.
        if 0 < numItems cf \<and> map example_hash (filters_cf cf) = [hash] then 1 else 0),
      CuckooFilter_Count = (\<lambda>cf hash.
        if 0 < numItems cf \<and> map example_hash (filters_cf cf) = [hash] then 1 else 0),
      CUCKOO_GEN_HASH = example_hash,
      CUCKOO_BKTSIZE = 2\<rparr>"

definition example_StringToDouble :: "string \<Rightarrow> real option" where
  "example_StringToDouble s =
     map_of [(''0'', 0), (''0.01'', 1 / 100), (''0.001'', 1 / 1000), (''-0.5'', - 1 / 2)] s"

definition failing_SB_NewChain :: "engines \<Rightarrow> engines" where
  "failing_SB_NewChain e = e\<lparr>SB_NewChain := (\<lambda>capacity error_rate options. None)\<rparr>"

definition failing_CuckooFilter_Init :: "engines \<Rightarrow> engines" where
  "failing_CuckooFilter_Init e = e\<lparr>CuckooFilter_Init := (\<lambda>capacity. None)\<rparr>"

text \<open>
  The exact product: the machine's product of two doubles wherever the exact product is a
  double, as for 100 and 9.5.
\<close>

definition exact_product :: "real \<Rightarrow> real \<Rightarrow> real" where
  "exact_product x y = x * y"

text \<open>A snapshot in the legacy format (version 0) of a chain of one layer.\<close>

definition legacy_snapshot :: RedisModuleIO where
  "legacy_snapshot =
     [RdbUnsigned 1, RdbUnsigned 1,
      RdbUnsigned 100, RdbDouble (1 / 100), RdbUnsigned 7, RdbDouble (19 / 2),
      RdbStringBuffer ''abc'', RdbUnsigned 1]"

section \<open>Properties of the command layer\<close>

subsection \<open>Evaluation of the lookup and of the command names\<close>

lemma StringToLongLong_zero: "RedisModule_StringToLongLong ''0'' = Some 0"
  by (simp add: RedisModule_StringToLongLong_def)

lemma string_of_ll_zero: "string_of_ll 0 = ''0''"
  by (simp add: string_of_ll_def string_of_nat.simps)

lemma isMulti_names:
  "isMulti ''CF.MEXISTS''" "isMulti ''BF.MEXISTS''" "isMulti ''BF.MADD''"
  "\<not> isMulti ''CF.EXISTS''" "\<not> isMulti ''BF.EXISTS''" "\<not> isMulti ''CF.COUNT''"
  "\<not> isMulti ''BF.ADD''"
  by (simp_all add: isMulti_def)

lemma isCount_names:
  "\<not> isCount ''CF.MEXISTS''" "\<not> isCount ''CF.EXISTS''" "isCount ''CF.COUNT''"
  by (simp_all add: isCount_def toupper_def)

lemma cfGetFilter_cases:
  "cfGetFilter None = (SB_MISSING, None)"
  "cfGetFilter (Some None) = (SB_EMPTY, None)"
  "cfGetFilter (Some (Some (CFValue p))) = (SB_OK, p)"
  "cfGetFilter (Some (Some (BFValue sb))) = (SB_MISMATCH, None)"
  "cfGetFilter (Some (Some OtherValue)) = (SB_MISMATCH, None)"
  by (simp_all add: cfGetFilter_def getValue_def)

lemma bfGetChain_cases:
  "bfGetChain None = (SB_MISSING, None)"
  "bfGetChain (Some None) = (SB_EMPTY, None)"
  "bfGetChain (Some (Some (BFValue sb))) = (SB_OK, Some sb)"
  "bfGetChain (Some (Some (CFValue p))) = (SB_MISMATCH, None)"
  "bfGetChain (Some (Some OtherValue)) = (SB_MISMATCH, None)"
  by (simp_all add: bfGetChain_def getValue_def)

lemma status_distinct:
  "SB_OK \<noteq> SB_MISSING" "SB_OK \<noteq> SB_EMPTY" "SB_OK \<noteq> SB_MISMATCH"
  "SB_MISSING \<noteq> SB_OK" "SB_EMPTY \<noteq> SB_OK" "SB_MISMATCH \<noteq> SB_OK"
  "SB_MISSING \<noteq> SB_EMPTY" "SB_EMPTY \<noteq> SB_MISSING"
  "SB_MISMATCH \<noteq> SB_EMPTY" "SB_EMPTY \<noteq> SB_MISMATCH"
  "SB_MISSING \<noteq> SB_MISMATCH" "SB_MISMATCH \<noteq> SB_MISSING"
  by (simp_all add: SB_OK_def SB_MISSING_def SB_EMPTY_def SB_MISMATCH_def)

lemma statusStrerror_cases:
  "statusStrerror SB_MISSING = ''ERR not found''"
  "statusStrerror SB_EMPTY = ''ERR not found''"
  "statusStrerror SB_MISMATCH = REDISMODULE_ERRORMSG_WRONGTYPE"
  "statusStrerror SB_OK = ''ERR item exists''"
  by (simp_all add: statusStrerror_def status_distinct)

lemma then_load_simps [simp]:
  "then_load (Inl f) k = Inl f"
  "then_load (Inr (v, io)) k = k v io"
  by (simp_all add: then_load_def)

lemma then_load_Inr:
  "then_load m k = Inr r \<Longrightarrow> \<exists>v io. m = Inr (v, io) \<and> k v io = Inr r"
  by (cases m) (auto simp add: then_load_def)

lemma StringToLongLong_examples:
  "RedisModule_StringToLongLong ''100'' = Some 100"
  "RedisModule_StringToLongLong ''abc'' = None"
  "RedisModule_StringToLongLong ''4294967296'' = Some 4294967296"
  "RedisModule_StringToLongLong ''500'' = Some 500"
  "RedisModule_StringToLongLong ''-5'' = Some (- 5)"
  by (simp_all add: RedisModule_StringToLongLong_def digit_val_def)

lemma example_StringToDouble_values:
  "example_StringToDouble ''0.01'' = Some (1 / 100)"
  "example_StringToDouble ''0.001'' = Some (1 / 1000)"
  "example_StringToDouble ''-0.5'' = Some (- 1 / 2)"
  "example_StringToDouble ''0'' = Some 0"
  "example_StringToDouble ''abc'' = None"
  by (simp_all add: example_StringToDouble_def)

lemma lookup_for_write_on_value:
  assumes "ks key = Some v"
  shows "bfGetChain (RedisModule_OpenKey ks key True) =
           (if type_of_value v = Some BFType then SB_OK else SB_MISMATCH,
            case v of BFValue sb \<Rightarrow> Some sb | _ \<Rightarrow> None)"
    and "cfGetFilter (RedisModule_OpenKey ks key True) =
           (if type_of_value v = Some CFType then SB_OK else SB_MISMATCH,
            case v of CFValue p \<Rightarrow> p | _ \<Rightarrow> None)"
  using assms
  by (cases v; simp add: RedisModule_OpenKey_def bfGetChain_cases cfGetFilter_cases)+

subsection \<open>CF.MEXISTS and BF.MEXISTS with several items\<close>

lemma emit_simps [simp]:
  "emit r (Inr rs) = Inr (r # rs)"
  "emit r (Inl f) = Inl f"
  by (simp_all add: emit_def)

lemma BFCheck_loop_present:
  "BFCheck_loop e (Some sb) False items =
     Inr (map (\<lambda>s. ReplyWithLongLong (SBChain_Check e sb s)) items)"
  by (induction items) simp_all

lemma BF_MEXISTS_replies_to_every_item:
  "BFCheck_RedisCommand e (ks(key \<mapsto> BFValue sb)) (''BF.MEXISTS'' # key # a # rest) =
     Inr (ks(key \<mapsto> BFValue sb),
          ReplyWithArray (1 + int (length rest)) #
          map (\<lambda>s. ReplyWithLongLong (SBChain_Check e sb s)) (a # rest))"
  by (simp add: BFCheck_RedisCommand_def isMulti_names RedisModule_OpenKey_def bfGetChain_cases
      BFCheck_loop_present)

text \<open>
  C1. \<^verbatim>\<open>CF.MEXISTS\<close> with two or more items on a key that holds a cuckoo filter announces
  an array of as many elements as there are items and then replies to the first item
  only: the result for every further item is missing. (\<^verbatim>\<open>BF.MEXISTS\<close>, whose loop has
  no \<^verbatim>\<open>return\<close> in its body, replies to every item, as the lemma above shows.)
\<close>

theorem CF_MEXISTS_replies_to_first_item_only:
  "CFCheck_RedisCommand e (ks(key \<mapsto> CFValue (Some cf))) (''CF.MEXISTS'' # key # a # b # rest) =
     Inr (ks(key \<mapsto> CFValue (Some cf)),
          [ReplyWithArray (2 + int (length rest)),
           ReplyWithLongLong (CuckooFilter_Check e cf (CUCKOO_GEN_HASH e a))])"
  by (simp add: CFCheck_RedisCommand_def isMulti_names isCount_names RedisModule_OpenKey_def
      cfGetFilter_cases)

subsection \<open>Membership queries on a key without a filter\<close>

lemma BFCheck_loop_empty:
  "BFCheck_loop e sb True items = Inr (map (\<lambda>s. ReplyWithLongLong 0) items)"
  by (induction items) simp_all

lemma not_OK_when_no_chain:
  "(\<forall>sb. ks key \<noteq> Some (BFValue sb)) \<Longrightarrow>
     fst (bfGetChain (RedisModule_OpenKey ks key False)) \<noteq> SB_OK"
  by (cases "ks key"; cases "the (ks key)")
     (simp_all add: RedisModule_OpenKey_def bfGetChain_cases status_distinct)

lemma not_OK_when_no_filter:
  "(\<forall>p. ks key \<noteq> Some (CFValue p)) \<Longrightarrow>
     fst (cfGetFilter (RedisModule_OpenKey ks key False)) \<noteq> SB_OK"
  by (cases "ks key"; cases "the (ks key)")
     (simp_all add: RedisModule_OpenKey_def cfGetFilter_cases status_distinct)

text \<open>
  On a key that is absent or holds another type, \<^verbatim>\<open>BF.EXISTS\<close> and \<^verbatim>\<open>BF.MEXISTS\<close>
  reply 0 for every item, and the cuckoo commands reply 0 when given one item.
\<close>

lemma BF_EXISTS_without_chain:
  assumes "\<forall>sb. ks key \<noteq> Some (BFValue sb)"
  shows "BFCheck_RedisCommand e ks [''BF.EXISTS'', key, a] = Inr (ks, [ReplyWithLongLong 0])"
    and "BFCheck_RedisCommand e ks (''BF.MEXISTS'' # key # a # rest) =
           Inr (ks, ReplyWithArray (1 + int (length rest)) #
                    map (\<lambda>s. ReplyWithLongLong 0) (a # rest))"
  using not_OK_when_no_chain [of ks key] assms
  by (simp_all add: BFCheck_RedisCommand_def isMulti_names BFCheck_loop_empty split_def)

lemma CF_single_item_without_filter:
  assumes "\<forall>p. ks key \<noteq> Some (CFValue p)"
  shows "CFCheck_RedisCommand e ks [''CF.EXISTS'', key, a] = Inr (ks, [ReplyWithLongLong 0])"
    and "CFCheck_RedisCommand e ks [''CF.COUNT'', key, a] = Inr (ks, [ReplyWithLongLong 0])"
    and "CFCheck_RedisCommand e ks [''CF.MEXISTS'', key, a] =
           Inr (ks, [ReplyWithArray 1, ReplyWithLongLong 0])"
  using not_OK_when_no_filter [of ks key] assms
  by (simp_all add: CFCheck_RedisCommand_def isMulti_names isCount_names split_def)

text \<open>
  C9. \<^verbatim>\<open>CF.MEXISTS\<close> with two or more items on an absent key raises no error, announces
  an array of as many elements as there are items, and replies 0 once: the items after
  the first get no reply.
\<close>

theorem CF_MEXISTS_absent_key_replies_one_zero:
  "CFCheck_RedisCommand e (ks(key := None)) (''CF.MEXISTS'' # key # a # b # rest) =
     Inr (ks(key := None), [ReplyWithArray (2 + int (length rest)), ReplyWithLongLong 0])"
  by (simp add: CFCheck_RedisCommand_def isMulti_names isCount_names RedisModule_OpenKey_def
      cfGetFilter_cases status_distinct)

subsection \<open>Replaying the rewritten append-only file of a bloom chain\<close>

text \<open>
  \<^verbatim>\<open>BF.SCANDUMP\<close> with cursor 0 replies the header next to the cursor 1, and a header
  sent with cursor 1 is installed on an absent key.
\<close>

lemma BFScanDump_header:
  "BFScanDump_RedisCommand e (ks(key \<mapsto> BFValue sb)) [''BF.SCANDUMP'', key, ''0''] =
     Inr (ks(key \<mapsto> BFValue sb),
          [ReplyWithArray 2, ReplyWithLongLong 1, ReplyWithString (SBChain_GetEncodedHeader e sb)])"
  by (simp add: BFScanDump_RedisCommand_def RedisModule_OpenKey_def bfGetChain_cases
      StringToLongLong_zero SB_CHUNKITER_INIT_def)

lemma header_with_cursor_1_is_installed:
  "BFLoadChunk_RedisCommand e (ks(key := None)) [''BF.LOADCHUNK'', key, ''1'', hdr] =
     (case SB_NewChainFromHeader e hdr of
        Inl errmsg \<Rightarrow> Inr (ks(key := None), [ReplyWithError errmsg])
      | Inr sb \<Rightarrow> Inr (ks(key \<mapsto> BFValue sb), [ReplyWithSimpleString ''OK'']))"
  by (simp add: BFLoadChunk_RedisCommand_def RedisModule_StringToLongLong_def digit_val_def
      RedisModule_OpenKey_def bfGetChain_cases split: sum.splits)

text \<open>The rewrite of a chain of one layer, and its replay on the empty keyspace.\<close>

lemma BFAofRewrite_example:
  "BFAofRewrite example_engines ''k'' example_chain =
     Some [[''BF.LOADCHUNK'', ''k'', ''0'', ''header''], [''BF.LOADCHUNK'', ''k'', ''2'', ''abc'']]"
  by (simp add: BFAofRewrite_def BFAofRewrite_header_def BFAofRewrite_loop.simps
      example_engines_def example_chain_def SB_CHUNKITER_INIT_def string_of_ll_def
      string_of_nat.simps)

lemma replay_example:
  "replay_LoadChunk example_engines Map.empty
     [[''BF.LOADCHUNK'', ''k'', ''0'', ''header''], [''BF.LOADCHUNK'', ''k'', ''2'', ''abc'']] =
   Inr (Map.empty, [ReplyWithError ''ERR not found'', ReplyWithError ''ERR not found''])"
  by (simp add: BFLoadChunk_RedisCommand_def RedisModule_StringToLongLong_def digit_val_def
      RedisModule_OpenKey_def bfGetChain_cases status_distinct statusStrerror_cases)

text \<open>
  C2. The first command \<^verbatim>\<open>BFAofRewrite\<close> emits carries the encoded header with cursor
  0. Replayed on the absent key, \<^verbatim>\<open>BF.LOADCHUNK\<close> refuses it with ``ERR not found'' and
  installs nothing, whatever the chain and the encoding are: the loader takes a header
  only with cursor 1.
\<close>

theorem AOF_header_command_is_refused:
  "BFLoadChunk_RedisCommand e (ks(key := None)) (BFAofRewrite_header e key sb) =
     Inr (ks(key := None), [ReplyWithError ''ERR not found''])"
  by (simp add: BFLoadChunk_RedisCommand_def BFAofRewrite_header_def string_of_ll_zero
      StringToLongLong_zero RedisModule_OpenKey_def bfGetChain_cases status_distinct
      statusStrerror_cases)

subsection \<open>CF.DEBUG and its guard\<close>

text \<open>
  With \<^verbatim>\<open>REDISMODULE_OK\<close> equal to \<^verbatim>\<open>SB_OK\<close>, the guard as written is the guard the spec
  intends; with any other value it is not: on a key that holds a cuckoo filter the command
  then replies ``ERR item exists''.
\<close>

lemma CFInfo_guard:
  "CFInfo_RedisCommand e SB_OK ks argv = CFInfo_intended e ks argv"
  by (simp add: CFInfo_RedisCommand_def CFInfo_intended_def)

lemma CFInfo_wrong_arity:
  "length argv \<noteq> 2 \<Longrightarrow> CFInfo_RedisCommand e ok ks argv = Inr (ks, [WrongArity])"
  by (simp add: CFInfo_RedisCommand_def)

lemma CFInfo_by_cases:
  "CFInfo_RedisCommand e 0 ks [cmd, key] =
     (case ks key of
        None \<Rightarrow> Inr (ks, [ReplyWithError ''ERR not found''])
      | Some (CFValue None) \<Rightarrow> Inl NullDereference
      | Some (CFValue (Some cf)) \<Rightarrow> Inr (ks, [ReplyWithString (CFInfo_text e cf)])
      | Some _ \<Rightarrow> Inr (ks, [ReplyWithError REDISMODULE_ERRORMSG_WRONGTYPE]))"
  by (simp add: CFInfo_RedisCommand_def RedisModule_OpenKey_def
      cfGetFilter_cases SB_OK_def SB_MISSING_def SB_EMPTY_def SB_MISMATCH_def
      statusStrerror_def split: option.splits rvalue.splits)

lemma CFInfo_on_cuckoo_value:
  "CFInfo_RedisCommand e ok (ks(key \<mapsto> CFValue p)) [cmd, key] =
     (if ok \<noteq> 0
      then Inr (ks(key \<mapsto> CFValue p), [ReplyWithError ''ERR item exists''])
      else case p of
             None \<Rightarrow> Inl NullDereference
           | Some cf \<Rightarrow> Inr (ks(key \<mapsto> CFValue p), [ReplyWithString (CFInfo_text e cf)]))"
  by (simp add: CFInfo_RedisCommand_def RedisModule_OpenKey_def
      cfGetFilter_cases SB_OK_def statusStrerror_def SB_MISSING_def SB_EMPTY_def SB_MISMATCH_def
      split: option.splits)

text \<open>
  How a key comes to hold a \<^verbatim>\<open>NULL\<close> filter: \<^verbatim>\<open>CF.RESERVE\<close> on an absent key, when
  \<^verbatim>\<open>CuckooFilter_Init\<close> fails. \<^verbatim>\<open>cfCreate\<close> stores the pointer it has set to \<^verbatim>\<open>NULL\<close>;
  \<^verbatim>\<open>bfCreateChain\<close> stores a chain only when there is one, so \<^verbatim>\<open>BF.RESERVE\<close> leaves the
  keyspace as it was when \<^verbatim>\<open>SB_NewChain\<close> fails.
\<close>

lemma CFReserve_leaves_null_filter:
  assumes "ks key = None" and "RedisModule_StringToLongLong cap = Some n"
    and "CuckooFilter_Init e (word_of_int n) = None"
  shows "CFReserve_RedisCommand e ks [cmd, key, cap] =
           Inr (ks(key \<mapsto> CFValue None), [ReplyWithError ''Couldn't create Cuckoo Filter''])"
  using assms
  by (simp add: CFReserve_RedisCommand_def RedisModule_OpenKey_def cfGetFilter_cases cfCreate_def)

lemma BFReserve_stores_no_null_chain:
  assumes "ks key = None"
    and "StringToDouble rate = Some error_rate" and "error_rate \<noteq> 0"
    and "RedisModule_StringToLongLong cap = Some n" and "n \<noteq> 0" and "n < UINT32_MAX"
    and "SB_NewChain e (word_of_int n) error_rate 0 = None"
  shows "BFReserve_RedisCommand e StringToDouble ks [cmd, key, rate, cap] =
           Inr (ks, [ReplyWithSimpleString ''ERR could not create filter''])"
  using assms
  by (simp add: BFReserve_RedisCommand_def RedisModule_OpenKey_def bfGetChain_cases
      bfCreateChain_def)

lemma CFInfo_after_failed_reserve:
  assumes "ks key = None" and "RedisModule_StringToLongLong cap = Some n"
    and "CuckooFilter_Init e (word_of_int n) = None"
    and "CFReserve_RedisCommand e ks [cmd, key, cap] = Inr (ks', rs)"
  shows "CFInfo_RedisCommand e 0 ks' [cmd', key] = Inl NullDereference"
  using assms(4)
  unfolding CFReserve_leaves_null_filter [of ks key cap n e cmd, OF assms(1-3)]
  by (auto simp add: CFInfo_by_cases)

text \<open>
  C8. \<^verbatim>\<open>CF.DEBUG\<close> does not reply in every case: on a key that holds the \<^verbatim>\<open>NULL\<close>
  filter left by a failed \<^verbatim>\<open>CF.RESERVE\<close> the status is \<^verbatim>\<open>SB_OK\<close>, the guard is passed
  and the command reads the fields of the \<^verbatim>\<open>NULL\<close> pointer. With \<^verbatim>\<open>REDISMODULE_OK\<close>
  equal to 0 the command replies ``ERR not found'' on an absent key, the WRONGTYPE error on
  a value of another type, and on a filter the info string \<^verbatim>\<open>bktsize:\<close>\<open>b\<close>
  \<^verbatim>\<open>buckets:\<close>\<open>n\<close> \<^verbatim>\<open>items:\<close>\<open>i\<close> \<^verbatim>\<open>deletes:\<close>\<open>d\<close> \<^verbatim>\<open>filters:\<close>\<open>f\<close> with the numbers in
  decimal; with any other value of \<^verbatim>\<open>REDISMODULE_OK\<close> it replies ``ERR item exists'' on
  every key that holds a value of the cuckoo type.
\<close>

theorem CFInfo_dereferences_null_filter:
  "CFInfo_RedisCommand e 0 ks [cmd, key] =
     (case ks key of
        None \<Rightarrow> Inr (ks, [ReplyWithError ''ERR not found''])
      | Some (CFValue None) \<Rightarrow> Inl NullDereference
      | Some (CFValue (Some cf)) \<Rightarrow>
          Inr (ks, [ReplyWithString
            (''bktsize:'' @ string_of_nat (CUCKOO_BKTSIZE e) @
             '' buckets:'' @ string_of_nat (unat (numBuckets cf)) @
             '' items:'' @ string_of_nat (unat (numItems cf)) @
             '' deletes:'' @ string_of_nat (unat (numDeletes cf)) @
             '' filters:'' @ string_of_nat (unat (numFilters cf)))])
      | Some _ \<Rightarrow> Inr (ks, [ReplyWithError REDISMODULE_ERRORMSG_WRONGTYPE]))
   \<and> CFInfo_RedisCommand e ok (ks(key \<mapsto> CFValue p)) [cmd, key] =
       (if ok \<noteq> 0
        then Inr (ks(key \<mapsto> CFValue p), [ReplyWithError ''ERR item exists''])
        else case p of
               None \<Rightarrow> Inl NullDereference
             | Some cf \<Rightarrow> Inr (ks(key \<mapsto> CFValue p), [ReplyWithString (CFInfo_text e cf)]))
   \<and> CFReserve_RedisCommand (failing_CuckooFilter_Init example_engines) Map.empty
        [''CF.RESERVE'', ''k'', ''100''] =
       Inr (Map.empty(''k'' \<mapsto> CFValue None), [ReplyWithError ''Couldn't create Cuckoo Filter''])
   \<and> CFInfo_RedisCommand (failing_CuckooFilter_Init example_engines) 0
        (Map.empty(''k'' \<mapsto> CFValue None)) [''CF.DEBUG'', ''k''] = Inl NullDereference
   \<and> CFInfo_RedisCommand example_engines 0 (Map.empty(''k'' \<mapsto> CFValue (Some example_filter)))
        [''CF.DEBUG'', ''k''] =
       Inr (Map.empty(''k'' \<mapsto> CFValue (Some example_filter)),
            [ReplyWithString ''bktsize:2 buckets:2 items:1 deletes:5 filters:1''])"
proof (intro conjI)
  show "CFInfo_RedisCommand e 0 ks [cmd, key] =
     (case ks key of
        None \<Rightarrow> Inr (ks, [ReplyWithError ''ERR not found''])
      | Some (CFValue None) \<Rightarrow> Inl NullDereference
      | Some (CFValue (Some cf)) \<Rightarrow>
          Inr (ks, [ReplyWithString
            (''bktsize:'' @ string_of_nat (CUCKOO_BKTSIZE e) @
             '' buckets:'' @ string_of_nat (unat (numBuckets cf)) @
             '' items:'' @ string_of_nat (unat (numItems cf)) @
             '' deletes:'' @ string_of_nat (unat (numDeletes cf)) @
             '' filters:'' @ string_of_nat (unat (numFilters cf)))])
      | Some _ \<Rightarrow> Inr (ks, [ReplyWithError REDISMODULE_ERRORMSG_WRONGTYPE]))"
    unfolding CFInfo_by_cases CFInfo_text_def by (rule refl)
  show "CFInfo_RedisCommand e ok (ks(key \<mapsto> CFValue p)) [cmd, key] =
       (if ok \<noteq> 0
        then Inr (ks(key \<mapsto> CFValue p), [ReplyWithError ''ERR item exists''])
        else case p of
               None \<Rightarrow> Inl NullDereference
             | Some cf \<Rightarrow> Inr (ks(key \<mapsto> CFValue p), [ReplyWithString (CFInfo_text e cf)]))"
    by (rule CFInfo_on_cuckoo_value)
  show "CFReserve_RedisCommand (failing_CuckooFilter_Init example_engines) Map.empty
        [''CF.RESERVE'', ''k'', ''100''] =
       Inr (Map.empty(''k'' \<mapsto> CFValue None), [ReplyWithError ''Couldn't create Cuckoo Filter''])"
    by (rule CFReserve_leaves_null_filter [where n = 100])
      (simp_all add: StringToLongLong_examples failing_CuckooFilter_Init_def)
  show "CFInfo_RedisCommand (failing_CuckooFilter_Init example_engines) 0
        (Map.empty(''k'' \<mapsto> CFValue None)) [''CF.DEBUG'', ''k''] = Inl NullDereference"
    by (simp add: CFInfo_by_cases)
  show "CFInfo_RedisCommand example_engines 0 (Map.empty(''k'' \<mapsto> CFValue (Some example_filter)))
        [''CF.DEBUG'', ''k''] =
       Inr (Map.empty(''k'' \<mapsto> CFValue (Some example_filter)),
            [ReplyWithString ''bktsize:2 buckets:2 items:1 deletes:5 filters:1''])"
    by (simp add: CFInfo_by_cases CFInfo_text_def example_engines_def example_filter_def
        string_of_nat.simps)
qed

subsection \<open>CF.ADD and CF.ADDNX\<close>

lemma isNX_names:
  "tolower CHR ''X'' = CHR ''x''" "tolower CHR ''D'' = CHR ''d''"
  by (simp_all add: tolower_def)

text \<open>
  On a key that holds a filter, \<^verbatim>\<open>CF.ADD\<close> and \<^verbatim>\<open>CF.ADDNX\<close>, with or without the
  optional capacity argument, store what the insertion leaves and reply by its status.
\<close>

lemma CFAdd_on_filter:
  assumes "ks key = Some (CFValue (Some cf))" and "length opt \<le> 1"
  shows "CFAdd_RedisCommand e cfg ks (''CF.ADD'' # key # item # opt) =
           (case CuckooFilter_Insert e cf (CUCKOO_GEN_HASH e item) of
              (insStatus, cf') \<Rightarrow>
                Inr (ks(key \<mapsto> CFValue (Some cf')),
                     [case insStatus of
                        CuckooInsert_Inserted \<Rightarrow> ReplyWithLongLong 1
                      | CuckooInsert_Exists \<Rightarrow> ReplyWithLongLong 0
                      | CuckooInsert_NoSpace \<Rightarrow> ReplyWithError ''Filter is full'']))"
    and "CFAdd_RedisCommand e cfg ks (''CF.ADDNX'' # key # item # opt) =
           (case CuckooFilter_InsertUnique e cf (CUCKOO_GEN_HASH e item) of
              (insStatus, cf') \<Rightarrow>
                Inr (ks(key \<mapsto> CFValue (Some cf')),
                     [case insStatus of
                        CuckooInsert_Inserted \<Rightarrow> ReplyWithLongLong 1
                      | CuckooInsert_Exists \<Rightarrow> ReplyWithLongLong 0
                      | CuckooInsert_NoSpace \<Rightarrow> ReplyWithError ''Filter is full'']))"
proof -
  have len: "length opt = 0 \<or> length opt = 1"
    using assms(2) by linarith
  show "CFAdd_RedisCommand e cfg ks (''CF.ADD'' # key # item # opt) =
           (case CuckooFilter_Insert e cf (CUCKOO_GEN_HASH e item) of
              (insStatus, cf') \<Rightarrow>
                Inr (ks(key \<mapsto> CFValue (Some cf')),
                     [case insStatus of
                        CuckooInsert_Inserted \<Rightarrow> ReplyWithLongLong 1
                      | CuckooInsert_Exists \<Rightarrow> ReplyWithLongLong 0
                      | CuckooInsert_NoSpace \<Rightarrow> ReplyWithError ''Filter is full'']))"
    using assms(1) len
    by (auto simp add: CFAdd_RedisCommand_def CFAdd_insert_def isNX_names RedisModule_OpenKey_def
        cfGetFilter_cases status_distinct split_def Let_def)
  show "CFAdd_RedisCommand e cfg ks (''CF.ADDNX'' # key # item # opt) =
           (case CuckooFilter_InsertUnique e cf (CUCKOO_GEN_HASH e item) of
              (insStatus, cf') \<Rightarrow>
                Inr (ks(key \<mapsto> CFValue (Some cf')),
                     [case insStatus of
                        CuckooInsert_Inserted \<Rightarrow> ReplyWithLongLong 1
                      | CuckooInsert_Exists \<Rightarrow> ReplyWithLongLong 0
                      | CuckooInsert_NoSpace \<Rightarrow> ReplyWithError ''Filter is full'']))"
    using assms(1) len
    by (auto simp add: CFAdd_RedisCommand_def CFAdd_insert_def isNX_names RedisModule_OpenKey_def
        cfGetFilter_cases status_distinct split_def Let_def)
qed

text \<open>
  On an absent key \<^verbatim>\<open>CF.ADD\<close> first creates a filter of the default capacity and then
  inserts into it in the same way.
\<close>

lemma CFAdd_on_absent_key:
  assumes "ks key = None"
    and "CuckooFilter_Init e (CFDefaultInitCapacity cfg) = Some created"
  shows "CFAdd_RedisCommand e cfg ks [''CF.ADD'', key, item] =
           (case CuckooFilter_Insert e created (CUCKOO_GEN_HASH e item) of
              (insStatus, cf') \<Rightarrow>
                Inr (ks(key \<mapsto> CFValue (Some cf')),
                     [case insStatus of
                        CuckooInsert_Inserted \<Rightarrow> ReplyWithLongLong 1
                      | CuckooInsert_Exists \<Rightarrow> ReplyWithLongLong 0
                      | CuckooInsert_NoSpace \<Rightarrow> ReplyWithError ''Filter is full'']))"
  using assms
  by (simp add: CFAdd_RedisCommand_def CFAdd_insert_def cfCreate_def isNX_names
      RedisModule_OpenKey_def cfGetFilter_cases split_def Let_def)

text \<open>
  C4. On a key that holds a cuckoo filter: when the item is present (the check across the
  sub-filters is not 0), \<^verbatim>\<open>CuckooFilter_InsertUnique\<close> returns \<^verbatim>\<open>Exists\<close> with the filter
  as it was, and \<^verbatim>\<open>CF.ADDNX\<close> replies 0 and leaves the keyspace, hence \<^verbatim>\<open>numItems\<close>,
  unchanged; \<^verbatim>\<open>CF.ADD\<close> replies 1 when the insertion returns \<^verbatim>\<open>Inserted\<close>; and both
  commands reply the error ``Filter is full'' when the insertion returns \<^verbatim>\<open>NoSpace\<close>.
\<close>

theorem CFAdd_replies:
  assumes "ks key = Some (CFValue (Some cf))" and "length opt \<le> 1"
  shows
   "(CuckooFilter_Check e cf (CUCKOO_GEN_HASH e item) \<noteq> 0 \<longrightarrow>
       CuckooFilter_InsertUnique e cf (CUCKOO_GEN_HASH e item) = (CuckooInsert_Exists, cf)
       \<and> CFAdd_RedisCommand e cfg ks (''CF.ADDNX'' # key # item # opt) =
           Inr (ks, [ReplyWithLongLong 0]))
    \<and> (CuckooFilter_Insert e cf (CUCKOO_GEN_HASH e item) = (CuckooInsert_Inserted, cf') \<longrightarrow>
         CFAdd_RedisCommand e cfg ks (''CF.ADD'' # key # item # opt) =
           Inr (ks(key \<mapsto> CFValue (Some cf')), [ReplyWithLongLong 1]))
    \<and> (CuckooFilter_Insert e cf (CUCKOO_GEN_HASH e item) = (CuckooInsert_NoSpace, cf') \<longrightarrow>
         CFAdd_RedisCommand e cfg ks (''CF.ADD'' # key # item # opt) =
           Inr (ks(key \<mapsto> CFValue (Some cf')), [ReplyWithError ''Filter is full'']))
    \<and> (CuckooFilter_InsertUnique e cf (CUCKOO_GEN_HASH e item) = (CuckooInsert_NoSpace, cf') \<longrightarrow>
         CFAdd_RedisCommand e cfg ks (''CF.ADDNX'' # key # item # opt) =
           Inr (ks(key \<mapsto> CFValue (Some cf')), [ReplyWithError ''Filter is full'']))"
proof -
  note add = CFAdd_on_filter(1) [of ks key cf opt e cfg item, OF assms]
  note addnx = CFAdd_on_filter(2) [of ks key cf opt e cfg item, OF assms]
  have same: "ks(key \<mapsto> CFValue (Some cf)) = ks"
    using assms(1) by (rule map_upd_triv)
  have present:
    "CuckooFilter_InsertUnique e cf (CUCKOO_GEN_HASH e item) = (CuckooInsert_Exists, cf)
     \<and> CFAdd_RedisCommand e cfg ks (''CF.ADDNX'' # key # item # opt) =
         Inr (ks, [ReplyWithLongLong 0])"
    if "CuckooFilter_Check e cf (CUCKOO_GEN_HASH e item) \<noteq> 0"
  proof -
    have "CuckooFilter_InsertUnique e cf (CUCKOO_GEN_HASH e item) = (CuckooInsert_Exists, cf)"
      using that by (simp add: CuckooFilter_InsertUnique_def)
    then show ?thesis
      by (simp add: addnx same)
  qed
  have inserted:
    "CFAdd_RedisCommand e cfg ks (''CF.ADD'' # key # item # opt) =
       Inr (ks(key \<mapsto> CFValue (Some cf')), [ReplyWithLongLong 1])"
    if "CuckooFilter_Insert e cf (CUCKOO_GEN_HASH e item) = (CuckooInsert_Inserted, cf')"
    using that by (simp add: add)
  have full_add:
    "CFAdd_RedisCommand e cfg ks (''CF.ADD'' # key # item # opt) =
       Inr (ks(key \<mapsto> CFValue (Some cf')), [ReplyWithError ''Filter is full''])"
    if "CuckooFilter_Insert e cf (CUCKOO_GEN_HASH e item) = (CuckooInsert_NoSpace, cf')"
    using that by (simp add: add)
  have full_addnx:
    "CFAdd_RedisCommand e cfg ks (''CF.ADDNX'' # key # item # opt) =
       Inr (ks(key \<mapsto> CFValue (Some cf')), [ReplyWithError ''Filter is full''])"
    if "CuckooFilter_InsertUnique e cf (CUCKOO_GEN_HASH e item) = (CuckooInsert_NoSpace, cf')"
    using that by (simp add: addnx)
  from present inserted full_add full_addnx show ?thesis
    by blast
qed

text \<open>The example filter holds an item whose hash is that of ``apple''.\<close>

lemma example_hash_values:
  "example_hash ''apple'' = 97" "example_hash ''a   '' = 97" "example_hash [] = 0"
  by (simp_all add: example_hash_def)

lemma example_Check_apple:
  "CuckooFilter_Check example_engines example_filter (CUCKOO_GEN_HASH example_engines ''apple'') = 1"
  by (simp add: example_engines_def example_filter_def example_hash_values)

lemma example_Insert_apple:
  "CuckooFilter_Insert example_engines example_filter (CUCKOO_GEN_HASH example_engines ''apple'') =
     (CuckooInsert_Inserted, example_filter\<lparr>numItems := 2\<rparr>)"
  by (simp add: example_engines_def example_filter_def example_hash_values)

lemma example_Insert_empty:
  "CuckooFilter_Insert example_engines example_filter (CUCKOO_GEN_HASH example_engines []) =
     (CuckooInsert_NoSpace, example_filter)"
  "CuckooFilter_InsertUnique example_engines example_filter (CUCKOO_GEN_HASH example_engines []) =
     (CuckooInsert_NoSpace, example_filter)"
  by (simp_all add: CuckooFilter_InsertUnique_def example_engines_def example_filter_def
      example_hash_values)

theorem CFAdd_replies_witness:
  "(Map.empty(''k'' \<mapsto> CFValue (Some example_filter))) ''k'' = Some (CFValue (Some example_filter))
   \<and> CuckooFilter_Check example_engines example_filter (CUCKOO_GEN_HASH example_engines ''apple'') \<noteq> 0
   \<and> CFAdd_RedisCommand example_engines initial_config
        (Map.empty(''k'' \<mapsto> CFValue (Some example_filter))) [''CF.ADDNX'', ''k'', ''apple''] =
      Inr (Map.empty(''k'' \<mapsto> CFValue (Some example_filter)), [ReplyWithLongLong 0])
   \<and> CFAdd_RedisCommand example_engines initial_config
        (Map.empty(''k'' \<mapsto> CFValue (Some example_filter))) [''CF.ADD'', ''k'', ''apple''] =
      Inr (Map.empty(''k'' \<mapsto> CFValue (Some (example_filter\<lparr>numItems := 2\<rparr>))),
           [ReplyWithLongLong 1])
   \<and> CFAdd_RedisCommand example_engines initial_config
        (Map.empty(''k'' \<mapsto> CFValue (Some example_filter))) [''CF.ADD'', ''k'', []] =
      Inr (Map.empty(''k'' \<mapsto> CFValue (Some example_filter)), [ReplyWithError ''Filter is full''])
   \<and> CFAdd_RedisCommand example_engines initial_config
        (Map.empty(''k'' \<mapsto> CFValue (Some example_filter))) [''CF.ADDNX'', ''k'', []] =
      Inr (Map.empty(''k'' \<mapsto> CFValue (Some example_filter)), [ReplyWithError ''Filter is full''])"
proof -
  let ?ks = "Map.empty(''k'' \<mapsto> CFValue (Some example_filter))"
  have held: "?ks ''k'' = Some (CFValue (Some example_filter))"
    by simp
  have len: "length ([] :: string list) \<le> 1"
    by simp
  have present:
    "CuckooFilter_Check example_engines example_filter (CUCKOO_GEN_HASH example_engines ''apple'') \<noteq> 0"
    by (simp add: example_Check_apple)
  note apple = CFAdd_replies [of ?ks "''k''" example_filter "[]" example_engines "''apple''"
      initial_config "example_filter\<lparr>numItems := 2\<rparr>", OF held len]
  note void = CFAdd_replies [of ?ks "''k''" example_filter "[]" example_engines "[]"
      initial_config example_filter, OF held len]
  have r1: "CFAdd_RedisCommand example_engines initial_config ?ks [''CF.ADDNX'', ''k'', ''apple''] =
      Inr (?ks, [ReplyWithLongLong 0])"
    using apple present by blast
  have r2: "CFAdd_RedisCommand example_engines initial_config ?ks [''CF.ADD'', ''k'', ''apple''] =
      Inr (?ks(''k'' \<mapsto> CFValue (Some (example_filter\<lparr>numItems := 2\<rparr>))), [ReplyWithLongLong 1])"
    using apple example_Insert_apple by blast
  have r3: "CFAdd_RedisCommand example_engines initial_config ?ks [''CF.ADD'', ''k'', []] =
      Inr (?ks(''k'' \<mapsto> CFValue (Some example_filter)), [ReplyWithError ''Filter is full''])"
    using void example_Insert_empty(1) by blast
  have r4: "CFAdd_RedisCommand example_engines initial_config ?ks [''CF.ADDNX'', ''k'', []] =
      Inr (?ks(''k'' \<mapsto> CFValue (Some example_filter)), [ReplyWithError ''Filter is full''])"
    using void example_Insert_empty(2) by blast
  show ?thesis
    using present by (simp add: r1 r2 r3 r4)
qed

subsection \<open>BF.ADD on an absent key and the load-time options\<close>

lemma strncasecmp_zero:
  "length a = length b \<Longrightarrow> (strncasecmp a b = 0) = (map tolower a = map tolower b)"
  by (induction a b rule: list_induct2) auto

lemma rsStrcasecmp_zero:
  "(rsStrcasecmp rs1 s2 = 0) = (length rs1 = length s2 \<and> map tolower rs1 = map tolower s2)"
  by (auto simp add: rsStrcasecmp_def strncasecmp_zero)

lemma option_names_lower:
  "map tolower ''initial_size'' = ''initial_size''"
  "map tolower ''error_rate'' = ''error_rate''"
  by (simp_all add: tolower_def)

lemma rsStrcasecmp_option_names:
  "(rsStrcasecmp name ''initial_size'' = 0) = (map tolower name = ''initial_size'')"
  "(rsStrcasecmp name ''error_rate'' = 0) = (map tolower name = ''error_rate'')"
  "map tolower name = ''error_rate'' \<Longrightarrow> map tolower name \<noteq> ''initial_size''"
proof -
  show "(rsStrcasecmp name ''initial_size'' = 0) = (map tolower name = ''initial_size'')"
    unfolding rsStrcasecmp_zero option_names_lower
    by (metis length_map)
  show "(rsStrcasecmp name ''error_rate'' = 0) = (map tolower name = ''error_rate'')"
    unfolding rsStrcasecmp_zero option_names_lower
    by (metis length_map)
  show "map tolower name = ''error_rate'' \<Longrightarrow> map tolower name \<noteq> ''initial_size''"
    by simp
qed

text \<open>
  The option loop on a list of well-formed options: every option, in order, replaces the
  default it names. An option is given with the value its text parses to, \<open>Inl\<close> for the
  integer of \<^verbatim>\<open>initial_size\<close> and \<open>Inr\<close> for the double of \<^verbatim>\<open>error_rate\<close>.
\<close>

lemma OnLoad_options_all:
  assumes "list_all (\<lambda>(name, val, v).
             case v of
               Inl n \<Rightarrow> map tolower name = ''initial_size''
                         \<and> RedisModule_StringToLongLong val = Some n \<and> 0 < n
             | Inr d \<Rightarrow> map tolower name = ''error_rate'' \<and> StringToDouble val = Some d \<and> 0 < d)
           opts"
  shows "OnLoad_options StringToDouble cfg (concat (map (\<lambda>(name, val, v). [name, val]) opts)) =
           Some (fold (\<lambda>(name, val, v) c.
                   case v of
                     Inl n \<Rightarrow> c\<lparr>BFDefaultInitCapacity := word_of_int n\<rparr>
                   | Inr d \<Rightarrow> c\<lparr>BFDefaultErrorRate := d\<rparr>) opts cfg)"
  using assms
proof (induction opts arbitrary: cfg)
  case Nil
  then show ?case by simp
next
  case (Cons opt opts)
  obtain name val v where opt: "opt = (name, val, v)"
    by (cases opt)
  show ?case
  proof (cases v)
    case (Inl n)
    with Cons.prems opt show ?thesis
      by (simp add: rsStrcasecmp_option_names Cons.IH)
  next
    case (Inr d)
    with Cons.prems opt show ?thesis
      by (simp add: rsStrcasecmp_option_names Cons.IH)
  qed
qed

lemma OnLoad_all:
  assumes "list_all (\<lambda>(name, val, v).
             case v of
               Inl n \<Rightarrow> map tolower name = ''initial_size''
                         \<and> RedisModule_StringToLongLong val = Some n \<and> 0 < n
             | Inr d \<Rightarrow> map tolower name = ''error_rate'' \<and> StringToDouble val = Some d \<and> 0 < d)
           opts"
  shows "RedisModule_OnLoad StringToDouble cfg (concat (map (\<lambda>(name, val, v). [name, val]) opts)) =
           Some (fold (\<lambda>(name, val, v) c.
                   case v of
                     Inl n \<Rightarrow> c\<lparr>BFDefaultInitCapacity := word_of_int n\<rparr>
                   | Inr d \<Rightarrow> c\<lparr>BFDefaultErrorRate := d\<rparr>) opts cfg)"
proof -
  let ?args = "concat (map (\<lambda>(name, val, v). [name, val]) opts)"
  have len: "length ?args = 2 * length opts"
    by (induction opts) auto
  then have even_count: "length ?args mod 2 = 0" and several: "length ?args \<noteq> 1"
    by presburger+
  show ?thesis
    using OnLoad_options_all [OF assms] even_count several
    by (simp add: RedisModule_OnLoad_def Let_def)
qed

text \<open>An option that is not well formed makes the load fail.\<close>

lemma OnLoad_rejects:
  shows "map tolower name = ''initial_size'' \<Longrightarrow>
           RedisModule_StringToLongLong val = None
             \<or> (\<exists>n. RedisModule_StringToLongLong val = Some n \<and> n \<le> 0) \<Longrightarrow>
           RedisModule_OnLoad StringToDouble cfg (name # val # rest) = None"
    and "map tolower name = ''error_rate'' \<Longrightarrow>
           StringToDouble val = None \<or> (\<exists>d. StringToDouble val = Some d \<and> d \<le> 0) \<Longrightarrow>
           RedisModule_OnLoad StringToDouble cfg (name # val # rest) = None"
    and "map tolower name \<noteq> ''initial_size'' \<Longrightarrow> map tolower name \<noteq> ''error_rate'' \<Longrightarrow>
           RedisModule_OnLoad StringToDouble cfg (name # val # rest) = None"
  by (auto simp add: RedisModule_OnLoad_def rsStrcasecmp_option_names Let_def)

lemma BFAdd_single_on_absent_key:
  assumes "ks key = None"
  shows "BFAdd_RedisCommand e cfg ks [''BF.ADD'', key, item] =
     (case SB_NewChain e (BFDefaultInitCapacity cfg) (BFDefaultErrorRate cfg) 0 of
        None \<Rightarrow> Inr (ks, [ReplyWithError ''ERR could not create filter''])
      | Some created \<Rightarrow>
          (case SBChain_Add e created item of
             (sb', rv) \<Rightarrow>
               Inr (ks(key \<mapsto> BFValue sb'), [ReplyWithLongLong (if rv \<noteq> 0 then 1 else 0)])))"
  using assms
  by (simp add: BFAdd_RedisCommand_def BFAdd_items_def bfCreateChain_def isMulti_names
      RedisModule_OpenKey_def bfGetChain_cases split_def Let_def split: option.splits)

lemma OnLoad_no_options: "RedisModule_OnLoad StringToDouble cfg [] = Some cfg"
  by (simp add: RedisModule_OnLoad_def)

text \<open>
  C6. \<^verbatim>\<open>BF.ADD\<close> on an absent key calls \<^verbatim>\<open>SB_NewChain\<close> with the module's default
  capacity and error rate, adds the item to the chain it returns, stores that chain under
  the key and replies 1 when the add returns a nonzero value (newly added) and 0 when it
  returns 0; when no chain can be created it replies ``ERR could not create filter''. In
  neither case does it reply ``ERR not found''. The defaults are 0.01 and 100 at start and
  a load without options keeps them. A load with any sequence of options
  \<^verbatim>\<open>initial_size\<close> and \<^verbatim>\<open>error_rate\<close>, their names in any case and their values
  positive, succeeds, and every option in turn replaces the default it names.
\<close>

theorem BFAdd_creates_with_defaults:
  assumes "ks key = None"
  shows
   "BFAdd_RedisCommand e cfg ks [''BF.ADD'', key, item] =
     (case SB_NewChain e (BFDefaultInitCapacity cfg) (BFDefaultErrorRate cfg) 0 of
        None \<Rightarrow> Inr (ks, [ReplyWithError ''ERR could not create filter''])
      | Some created \<Rightarrow>
          (case SBChain_Add e created item of
             (sb', rv) \<Rightarrow>
               Inr (ks(key \<mapsto> BFValue sb'), [ReplyWithLongLong (if rv \<noteq> 0 then 1 else 0)])))
    \<and> (\<exists>ks' rs. BFAdd_RedisCommand e cfg ks [''BF.ADD'', key, item] = Inr (ks', rs)
                  \<and> ReplyWithError ''ERR not found'' \<notin> set rs)
    \<and> BFDefaultErrorRate initial_config = 0.01
    \<and> BFDefaultInitCapacity initial_config = 100
    \<and> RedisModule_OnLoad StringToDouble initial_config [] = Some initial_config
    \<and> (list_all (\<lambda>(name, val, v).
            case v of
              Inl n \<Rightarrow> map tolower name = ''initial_size''
                        \<and> RedisModule_StringToLongLong val = Some n \<and> 0 < n
            | Inr d \<Rightarrow> map tolower name = ''error_rate'' \<and> StringToDouble val = Some d \<and> 0 < d)
          opts \<longrightarrow>
        RedisModule_OnLoad StringToDouble initial_config
          (concat (map (\<lambda>(name, val, v). [name, val]) opts)) =
          Some (fold (\<lambda>(name, val, v) c.
                  case v of
                    Inl n \<Rightarrow> c\<lparr>BFDefaultInitCapacity := word_of_int n\<rparr>
                  | Inr d \<Rightarrow> c\<lparr>BFDefaultErrorRate := d\<rparr>) opts initial_config))"
proof -
  note run = BFAdd_single_on_absent_key [of ks key e cfg item, OF assms]
  have never_not_found:
    "\<exists>ks' rs. BFAdd_RedisCommand e cfg ks [''BF.ADD'', key, item] = Inr (ks', rs)
              \<and> ReplyWithError ''ERR not found'' \<notin> set rs"
    unfolding run by (simp split: option.splits prod.splits)
  have defaults:
    "BFDefaultErrorRate initial_config = 0.01" "BFDefaultInitCapacity initial_config = 100"
    by (simp_all add: initial_config_def)
  from run never_not_found defaults OnLoad_no_options
    OnLoad_all [of StringToDouble opts initial_config]
  show ?thesis
    by blast
qed

theorem BFAdd_creates_with_defaults_witness:
  "(Map.empty :: keyspace) ''k'' = None
   \<and> BFAdd_RedisCommand example_engines initial_config Map.empty [''BF.ADD'', ''k'', ''apple''] =
       Inr (Map.empty(''k'' \<mapsto> BFValue \<lparr>filters = [], size_chain = 1, nfilters = 0\<rparr>),
            [ReplyWithLongLong 1])
   \<and> map tolower ''initial_size'' = ''initial_size''
   \<and> RedisModule_StringToLongLong ''500'' = Some 500 \<and> (0 :: int) < 500
   \<and> map tolower ''ERROR_RATE'' = ''error_rate''
   \<and> example_StringToDouble ''0.001'' = Some (1 / 1000) \<and> (0 :: real) < 1 / 1000
   \<and> RedisModule_OnLoad example_StringToDouble initial_config
        [''initial_size'', ''500'', ''ERROR_RATE'', ''0.001''] =
        Some \<lparr>BFDefaultErrorRate = 1 / 1000, BFDefaultInitCapacity = 500,
              CFDefaultInitCapacity = 1000\<rparr>"
proof -
  let ?opts = "[(''initial_size'', ''500'', Inl (500 :: int)),
                (''ERROR_RATE'', ''0.001'', Inr (1 / 1000 :: real))]"
  have absent: "(Map.empty :: keyspace) ''k'' = None"
    by simp
  have names: "map tolower ''initial_size'' = ''initial_size''"
    "map tolower ''ERROR_RATE'' = ''error_rate''"
    by (simp_all add: tolower_def)
  have well_formed: "list_all (\<lambda>(name, val, v).
            case v of
              Inl n \<Rightarrow> map tolower name = ''initial_size''
                        \<and> RedisModule_StringToLongLong val = Some n \<and> 0 < n
            | Inr d \<Rightarrow> map tolower name = ''error_rate''
                        \<and> example_StringToDouble val = Some d \<and> 0 < d) ?opts"
    by (simp add: tolower_def StringToLongLong_examples example_StringToDouble_values)
  note inst = BFAdd_creates_with_defaults [where ks = Map.empty and key = "''k''"
      and e = example_engines and cfg = initial_config and item = "''apple''"
      and StringToDouble = example_StringToDouble and opts = ?opts, OF absent]
  have r1: "BFAdd_RedisCommand example_engines initial_config Map.empty [''BF.ADD'', ''k'', ''apple''] =
       Inr (Map.empty(''k'' \<mapsto> BFValue \<lparr>filters = [], size_chain = 1, nfilters = 0\<rparr>),
            [ReplyWithLongLong 1])"
    using inst [THEN conjunct1] by (simp add: example_engines_def initial_config_def)
  have "RedisModule_OnLoad example_StringToDouble initial_config
          (concat (map (\<lambda>(name, val, v). [name, val]) ?opts)) =
          Some (fold (\<lambda>(name, val, v) c.
                  case v of
                    Inl n \<Rightarrow> c\<lparr>BFDefaultInitCapacity := word_of_int n\<rparr>
                  | Inr d \<Rightarrow> c\<lparr>BFDefaultErrorRate := d\<rparr>) ?opts initial_config)"
    by (rule inst [THEN conjunct2, THEN conjunct2, THEN conjunct2, THEN conjunct2,
          THEN conjunct2, THEN mp, OF well_formed])
  then have r2: "RedisModule_OnLoad example_StringToDouble initial_config
        [''initial_size'', ''500'', ''ERROR_RATE'', ''0.001''] =
        Some \<lparr>BFDefaultErrorRate = 1 / 1000, BFDefaultInitCapacity = 500,
              CFDefaultInitCapacity = 1000\<rparr>"
    by (simp add: initial_config_def)
  have parsed: "RedisModule_StringToLongLong ''500'' = Some 500 \<and> (0 :: int) < 500"
    "example_StringToDouble ''0.001'' = Some (1 / 1000) \<and> (0 :: real) < 1 / 1000"
    by (simp_all add: StringToLongLong_examples example_StringToDouble_values)
  from absent r1 r2 names parsed show ?thesis
    by blast
qed

subsection \<open>BF.RESERVE and CF.RESERVE on a key that holds a value\<close>

text \<open>
  The whole reply of the two commands on a key that holds a value: the checks of the
  argument count and of the arguments come first, in the order of the source, and the
  lookup of the key last. The keyspace is returned as it was.
\<close>

lemma BFReserve_on_value:
  assumes "ks key = Some v"
  shows "BFReserve_RedisCommand e StringToDouble ks (cmd # key # args) =
     Inr (ks,
       [if length args \<noteq> 2 then WrongArity
        else case StringToDouble (args ! 0) of
          None \<Rightarrow> ReplyWithError ''ERR bad error rate''
        | Some error_rate \<Rightarrow>
            (case RedisModule_StringToLongLong (args ! 1) of
               None \<Rightarrow> ReplyWithError ''ERR bad capacity''
             | Some capacity \<Rightarrow>
                 if UINT32_MAX \<le> capacity then ReplyWithError ''ERR bad capacity''
                 else if error_rate = 0 \<or> capacity = 0
                 then ReplyWithError ''ERR capacity and error must not be 0''
                 else ReplyWithError (if type_of_value v = Some BFType then ''ERR item exists''
                                      else REDISMODULE_ERRORMSG_WRONGTYPE))])"
  using assms
  by (simp add: BFReserve_RedisCommand_def lookup_for_write_on_value status_distinct
      statusStrerror_cases Let_def split: option.splits)

lemma CFReserve_on_value:
  assumes "ks key = Some v"
  shows "CFReserve_RedisCommand e ks (cmd # key # args) =
     Inr (ks,
       [if length args \<noteq> 1 then WrongArity
        else case RedisModule_StringToLongLong (args ! 0) of
          None \<Rightarrow> ReplyWithError ''Bad capacity''
        | Some capacity \<Rightarrow>
            ReplyWithError (if type_of_value v = Some CFType then ''ERR item exists''
                            else REDISMODULE_ERRORMSG_WRONGTYPE)])"
  using assms
  by (simp add: CFReserve_RedisCommand_def lookup_for_write_on_value status_distinct
      statusStrerror_cases Let_def split: option.splits)

lemma BFReserve_on_value_is_error:
  assumes "ks key = Some v"
  shows "\<exists>r. BFReserve_RedisCommand e StringToDouble ks (cmd # key # args) = Inr (ks, [r])
             \<and> is_error_reply r"
  unfolding BFReserve_on_value [of ks key v e StringToDouble cmd args, OF assms]
  by (simp split: option.splits)

lemma CFReserve_on_value_is_error:
  assumes "ks key = Some v"
  shows "\<exists>r. CFReserve_RedisCommand e ks (cmd # key # args) = Inr (ks, [r]) \<and> is_error_reply r"
  unfolding CFReserve_on_value [of ks key v e cmd args, OF assms]
  by (simp split: option.splits)

lemma BFReserve_on_value_valid_arguments:
  assumes "ks key = Some v"
    and "StringToDouble rate = Some error_rate" and "error_rate \<noteq> 0"
    and "RedisModule_StringToLongLong cap = Some capacity"
    and "capacity \<noteq> 0" and "capacity < UINT32_MAX"
  shows "BFReserve_RedisCommand e StringToDouble ks [cmd, key, rate, cap] =
           Inr (ks, [ReplyWithError (if type_of_value v = Some BFType then ''ERR item exists''
                                     else REDISMODULE_ERRORMSG_WRONGTYPE)])"
  using assms
  by (simp add: BFReserve_RedisCommand_def lookup_for_write_on_value status_distinct
      statusStrerror_cases)

lemma CFReserve_on_value_valid_arguments:
  assumes "ks key = Some v" and "RedisModule_StringToLongLong cap = Some capacity"
  shows "CFReserve_RedisCommand e ks [cmd, key, cap] =
           Inr (ks, [ReplyWithError (if type_of_value v = Some CFType then ''ERR item exists''
                                     else REDISMODULE_ERRORMSG_WRONGTYPE)])"
  using assms
  by (simp add: CFReserve_RedisCommand_def lookup_for_write_on_value status_distinct
      statusStrerror_cases)

text \<open>
  C3 (as amended). On a key that already holds a value, \<^verbatim>\<open>BF.RESERVE\<close> and
  \<^verbatim>\<open>CF.RESERVE\<close> reply exactly one error and leave the keyspace as it was, whatever their
  arguments are. The error is the arity error when the number of arguments after the key
  is not two (\<^verbatim>\<open>BF.RESERVE\<close>) or not one (\<^verbatim>\<open>CF.RESERVE\<close>). Otherwise, for
  \<^verbatim>\<open>BF.RESERVE\<close>, it is ``ERR bad error rate'' when the error rate is not numeric;
  otherwise ``ERR bad capacity'' when the capacity is not numeric or is \<^verbatim>\<open>UINT32_MAX\<close> or
  more; otherwise ``ERR capacity and error must not be 0'' when the error rate or the
  capacity is zero; and for \<^verbatim>\<open>CF.RESERVE\<close> it is ``Bad capacity'' when the capacity is
  not numeric. When none of these applies, the error is ``ERR item exists'' for a value of
  the command's own type and the WRONGTYPE error for any other value.
\<close>

theorem RESERVE_on_existing_key:
  assumes "ks key = Some v"
  shows
   "(\<exists>r. BFReserve_RedisCommand e StringToDouble ks (cmd # key # args) = Inr (ks, [r])
         \<and> is_error_reply r)
    \<and> (\<exists>r. CFReserve_RedisCommand e ks (cmd # key # args) = Inr (ks, [r]) \<and> is_error_reply r)
    \<and> (StringToDouble rate = Some error_rate \<and> error_rate \<noteq> 0
        \<and> RedisModule_StringToLongLong cap = Some capacity
        \<and> capacity \<noteq> 0 \<and> capacity < UINT32_MAX \<longrightarrow>
          BFReserve_RedisCommand e StringToDouble ks [cmd, key, rate, cap] =
            Inr (ks, [ReplyWithError (if type_of_value v = Some BFType then ''ERR item exists''
                                      else REDISMODULE_ERRORMSG_WRONGTYPE)]))
    \<and> (RedisModule_StringToLongLong cap = Some capacity \<longrightarrow>
          CFReserve_RedisCommand e ks [cmd, key, cap] =
            Inr (ks, [ReplyWithError (if type_of_value v = Some CFType then ''ERR item exists''
                                      else REDISMODULE_ERRORMSG_WRONGTYPE)]))
    \<and> BFReserve_RedisCommand e StringToDouble ks (cmd # key # args) =
         Inr (ks,
           [if length args \<noteq> 2 then WrongArity
            else case StringToDouble (args ! 0) of
              None \<Rightarrow> ReplyWithError ''ERR bad error rate''
            | Some r \<Rightarrow>
                (case RedisModule_StringToLongLong (args ! 1) of
                   None \<Rightarrow> ReplyWithError ''ERR bad capacity''
                 | Some n \<Rightarrow>
                     if UINT32_MAX \<le> n then ReplyWithError ''ERR bad capacity''
                     else if r = 0 \<or> n = 0
                     then ReplyWithError ''ERR capacity and error must not be 0''
                     else ReplyWithError (if type_of_value v = Some BFType then ''ERR item exists''
                                          else REDISMODULE_ERRORMSG_WRONGTYPE))])
    \<and> CFReserve_RedisCommand e ks (cmd # key # args) =
         Inr (ks,
           [if length args \<noteq> 1 then WrongArity
            else case RedisModule_StringToLongLong (args ! 0) of
              None \<Rightarrow> ReplyWithError ''Bad capacity''
            | Some n \<Rightarrow>
                ReplyWithError (if type_of_value v = Some CFType then ''ERR item exists''
                                else REDISMODULE_ERRORMSG_WRONGTYPE)])"
proof (intro conjI)
  show "\<exists>r. BFReserve_RedisCommand e StringToDouble ks (cmd # key # args) = Inr (ks, [r])
            \<and> is_error_reply r"
    by (rule BFReserve_on_value_is_error [of ks key v e StringToDouble cmd args, OF assms])
  show "\<exists>r. CFReserve_RedisCommand e ks (cmd # key # args) = Inr (ks, [r]) \<and> is_error_reply r"
    by (rule CFReserve_on_value_is_error [of ks key v e cmd args, OF assms])
  show "StringToDouble rate = Some error_rate \<and> error_rate \<noteq> 0
        \<and> RedisModule_StringToLongLong cap = Some capacity
        \<and> capacity \<noteq> 0 \<and> capacity < UINT32_MAX \<longrightarrow>
          BFReserve_RedisCommand e StringToDouble ks [cmd, key, rate, cap] =
            Inr (ks, [ReplyWithError (if type_of_value v = Some BFType then ''ERR item exists''
                                      else REDISMODULE_ERRORMSG_WRONGTYPE)])"
    using BFReserve_on_value_valid_arguments
      [of ks key v StringToDouble rate error_rate cap capacity e cmd, OF assms]
    by blast
  show "RedisModule_StringToLongLong cap = Some capacity \<longrightarrow>
          CFReserve_RedisCommand e ks [cmd, key, cap] =
            Inr (ks, [ReplyWithError (if type_of_value v = Some CFType then ''ERR item exists''
                                      else REDISMODULE_ERRORMSG_WRONGTYPE)])"
    using CFReserve_on_value_valid_arguments [of ks key v cap capacity e cmd, OF assms]
    by blast
  show "BFReserve_RedisCommand e StringToDouble ks (cmd # key # args) =
         Inr (ks,
           [if length args \<noteq> 2 then WrongArity
            else case StringToDouble (args ! 0) of
              None \<Rightarrow> ReplyWithError ''ERR bad error rate''
            | Some r \<Rightarrow>
                (case RedisModule_StringToLongLong (args ! 1) of
                   None \<Rightarrow> ReplyWithError ''ERR bad capacity''
                 | Some n \<Rightarrow>
                     if UINT32_MAX \<le> n then ReplyWithError ''ERR bad capacity''
                     else if r = 0 \<or> n = 0
                     then ReplyWithError ''ERR capacity and error must not be 0''
                     else ReplyWithError (if type_of_value v = Some BFType then ''ERR item exists''
                                          else REDISMODULE_ERRORMSG_WRONGTYPE))])"
    by (rule BFReserve_on_value [of ks key v e StringToDouble cmd args, OF assms])
  show "CFReserve_RedisCommand e ks (cmd # key # args) =
         Inr (ks,
           [if length args \<noteq> 1 then WrongArity
            else case RedisModule_StringToLongLong (args ! 0) of
              None \<Rightarrow> ReplyWithError ''Bad capacity''
            | Some n \<Rightarrow>
                ReplyWithError (if type_of_value v = Some CFType then ''ERR item exists''
                                else REDISMODULE_ERRORMSG_WRONGTYPE)])"
    by (rule CFReserve_on_value [of ks key v e cmd args, OF assms])
qed

text \<open>
  The claim as stated fails where an argument is malformed: on a key that holds a filter of
  the command's own type the argument error is replied, not ``ERR item exists''.
\<close>

theorem RESERVE_on_existing_key_counterexample:
  "BFReserve_RedisCommand example_engines example_StringToDouble
     (Map.empty(''k'' \<mapsto> BFValue example_chain)) [''BF.RESERVE'', ''k'', ''abc'', ''100''] =
     Inr (Map.empty(''k'' \<mapsto> BFValue example_chain), [ReplyWithError ''ERR bad error rate''])
   \<and> CFReserve_RedisCommand example_engines
       (Map.empty(''k'' \<mapsto> CFValue (Some example_filter))) [''CF.RESERVE'', ''k'', ''abc''] =
     Inr (Map.empty(''k'' \<mapsto> CFValue (Some example_filter)), [ReplyWithError ''Bad capacity''])
   \<and> ReplyWithError ''ERR bad error rate'' \<noteq> ReplyWithError ''ERR item exists''
   \<and> ReplyWithError ''Bad capacity'' \<noteq> ReplyWithError ''ERR item exists''"
  by (simp add: BFReserve_RedisCommand_def CFReserve_RedisCommand_def
      example_StringToDouble_values StringToLongLong_examples)

theorem RESERVE_on_existing_key_witness:
  "(Map.empty(''k'' \<mapsto> BFValue example_chain)) ''k'' = Some (BFValue example_chain)
   \<and> example_StringToDouble ''0.01'' = Some (1 / 100) \<and> (1 / 100 :: real) \<noteq> 0
   \<and> RedisModule_StringToLongLong ''100'' = Some 100 \<and> (100 :: int) \<noteq> 0 \<and> 100 < UINT32_MAX
   \<and> BFReserve_RedisCommand example_engines example_StringToDouble
        (Map.empty(''k'' \<mapsto> BFValue example_chain)) [''BF.RESERVE'', ''k'', ''0.01'', ''100''] =
      Inr (Map.empty(''k'' \<mapsto> BFValue example_chain), [ReplyWithError ''ERR item exists''])
   \<and> CFReserve_RedisCommand example_engines
        (Map.empty(''k'' \<mapsto> BFValue example_chain)) [''CF.RESERVE'', ''k'', ''100''] =
      Inr (Map.empty(''k'' \<mapsto> BFValue example_chain),
           [ReplyWithError REDISMODULE_ERRORMSG_WRONGTYPE])
   \<and> BFReserve_RedisCommand example_engines example_StringToDouble
        (Map.empty(''k'' \<mapsto> BFValue example_chain)) [''BF.RESERVE'', ''k'', ''0.01''] =
      Inr (Map.empty(''k'' \<mapsto> BFValue example_chain), [WrongArity])
   \<and> BFReserve_RedisCommand example_engines example_StringToDouble
        (Map.empty(''k'' \<mapsto> BFValue example_chain)) [''BF.RESERVE'', ''k'', ''0.01'', ''0''] =
      Inr (Map.empty(''k'' \<mapsto> BFValue example_chain),
           [ReplyWithError ''ERR capacity and error must not be 0''])"
proof -
  let ?ks = "Map.empty(''k'' \<mapsto> BFValue example_chain)"
  have held: "?ks ''k'' = Some (BFValue example_chain)"
    by simp
  have small: "(100 :: int) < UINT32_MAX"
    by (simp add: UINT32_MAX_def)
  note inst = RESERVE_on_existing_key [of ?ks "''k''" "BFValue example_chain" example_engines
      example_StringToDouble "''BF.RESERVE''" "[''0.01'']" "''0.01''" "1 / 100" "''100''" 100,
      OF held]
  note inst_zero = RESERVE_on_existing_key [of ?ks "''k''" "BFValue example_chain"
      example_engines example_StringToDouble "''BF.RESERVE''" "[''0.01'', ''0'']" "''0.01''"
      "1 / 100" "''100''" 100, OF held]
  note inst_cf = RESERVE_on_existing_key [of ?ks "''k''" "BFValue example_chain" example_engines
      example_StringToDouble "''CF.RESERVE''" "[]" "''0.01''" "1 / 100" "''100''" 100, OF held]
  have r1: "BFReserve_RedisCommand example_engines example_StringToDouble ?ks
        [''BF.RESERVE'', ''k'', ''0.01'', ''100''] =
      Inr (?ks, [ReplyWithError ''ERR item exists''])"
    using inst [THEN conjunct2, THEN conjunct2, THEN conjunct1] small
    by (simp add: example_StringToDouble_values StringToLongLong_examples)
  have r2: "CFReserve_RedisCommand example_engines ?ks [''CF.RESERVE'', ''k'', ''100''] =
      Inr (?ks, [ReplyWithError REDISMODULE_ERRORMSG_WRONGTYPE])"
    using inst_cf [THEN conjunct2, THEN conjunct2, THEN conjunct2, THEN conjunct1]
    by (simp add: StringToLongLong_examples)
  have r3: "BFReserve_RedisCommand example_engines example_StringToDouble ?ks
        [''BF.RESERVE'', ''k'', ''0.01''] = Inr (?ks, [WrongArity])"
    using inst [THEN conjunct2, THEN conjunct2, THEN conjunct2, THEN conjunct2, THEN conjunct1]
    by simp
  have r4: "BFReserve_RedisCommand example_engines example_StringToDouble ?ks
        [''BF.RESERVE'', ''k'', ''0.01'', ''0''] =
      Inr (?ks, [ReplyWithError ''ERR capacity and error must not be 0''])"
    using inst_zero [THEN conjunct2, THEN conjunct2, THEN conjunct2, THEN conjunct2,
        THEN conjunct1]
    by (simp add: example_StringToDouble_values StringToLongLong_zero UINT32_MAX_def)
  have parsed: "example_StringToDouble ''0.01'' = Some (1 / 100) \<and> (1 / 100 :: real) \<noteq> 0"
    "RedisModule_StringToLongLong ''100'' = Some 100 \<and> (100 :: int) \<noteq> 0 \<and> 100 < UINT32_MAX"
    using small by (simp_all add: example_StringToDouble_values StringToLongLong_examples)
  from held parsed r1 r2 r3 r4 show ?thesis
    by blast
qed

subsection \<open>The argument checks of BF.RESERVE and CF.RESERVE\<close>

lemma BFReserve_bad_error_rate:
  assumes "StringToDouble rate = None"
  shows "BFReserve_RedisCommand e StringToDouble ks [cmd, key, rate, cap] =
           Inr (ks, [ReplyWithError ''ERR bad error rate''])"
  using assms by (simp add: BFReserve_RedisCommand_def)

lemma BFReserve_bad_capacity:
  assumes "StringToDouble rate = Some error_rate"
    and "RedisModule_StringToLongLong cap = None
         \<or> (\<exists>n. RedisModule_StringToLongLong cap = Some n \<and> UINT32_MAX \<le> n)"
  shows "BFReserve_RedisCommand e StringToDouble ks [cmd, key, rate, cap] =
           Inr (ks, [ReplyWithError ''ERR bad capacity''])"
  using assms by (auto simp add: BFReserve_RedisCommand_def)

lemma BFReserve_zero:
  assumes "StringToDouble rate = Some error_rate"
    and "RedisModule_StringToLongLong cap = Some n" and "n < UINT32_MAX"
    and "error_rate = 0 \<or> n = 0"
  shows "BFReserve_RedisCommand e StringToDouble ks [cmd, key, rate, cap] =
           Inr (ks, [ReplyWithError ''ERR capacity and error must not be 0''])"
  using assms by (auto simp add: BFReserve_RedisCommand_def)

lemma BFReserve_rejects:
  assumes "StringToDouble rate = None \<or> StringToDouble rate = Some 0
           \<or> RedisModule_StringToLongLong cap = None
           \<or> RedisModule_StringToLongLong cap = Some 0
           \<or> (\<exists>n. RedisModule_StringToLongLong cap = Some n \<and> UINT32_MAX \<le> n)"
  shows "\<exists>r. BFReserve_RedisCommand e StringToDouble ks [cmd, key, rate, cap] = Inr (ks, [r])
             \<and> r \<in> set [ReplyWithError ''ERR bad error rate'', ReplyWithError ''ERR bad capacity'',
                          ReplyWithError ''ERR capacity and error must not be 0'']"
  using assms
  by (auto simp add: BFReserve_RedisCommand_def split: option.splits)

lemma CFReserve_rejects:
  assumes "RedisModule_StringToLongLong cap = None"
  shows "CFReserve_RedisCommand e ks [cmd, key, cap] = Inr (ks, [ReplyWithError ''Bad capacity''])"
  using assms by (simp add: CFReserve_RedisCommand_def)

lemma CFReserve_numeric_capacity_accepted:
  assumes "ks key = None"
    and "RedisModule_StringToLongLong cap = Some n"
    and "CuckooFilter_Init e (word_of_int n) = Some cf"
  shows "CFReserve_RedisCommand e ks [cmd, key, cap] =
           Inr (ks(key \<mapsto> CFValue (Some cf)), [ReplyWithSimpleString ''OK''])"
  using assms
  by (simp add: CFReserve_RedisCommand_def RedisModule_OpenKey_def cfGetFilter_cases cfCreate_def)

text \<open>
  \<^verbatim>\<open>CF.RESERVE\<close> with a numeric capacity on an absent key, whatever the capacity and
  whatever \<^verbatim>\<open>CuckooFilter_Init\<close> does: the key holds a value afterwards and the reply is
  not ``Bad capacity''.
\<close>

lemma CFReserve_numeric_capacity_on_absent_key:
  assumes "ks key = None" and "RedisModule_StringToLongLong cap = Some n"
  shows "CFReserve_RedisCommand e ks [cmd, key, cap] =
           (case CuckooFilter_Init e (word_of_int n) of
              None \<Rightarrow> Inr (ks(key \<mapsto> CFValue None),
                           [ReplyWithError ''Couldn't create Cuckoo Filter''])
            | Some cf \<Rightarrow> Inr (ks(key \<mapsto> CFValue (Some cf)), [ReplyWithSimpleString ''OK'']))"
  using assms
  by (simp add: CFReserve_RedisCommand_def RedisModule_OpenKey_def cfGetFilter_cases cfCreate_def
      split: option.splits)

text \<open>
  \<^verbatim>\<open>BF.RESERVE\<close> compares the error rate and the capacity with 0 only, where the option
  loop of \<^verbatim>\<open>RedisModule_OnLoad\<close> refuses every value that is not positive. A negative
  error rate or a negative capacity is therefore never answered by an error reply: the
  reply is a status string, whether or not \<^verbatim>\<open>SB_NewChain\<close> creates a chain.
\<close>

lemma BFReserve_negative_no_error_reply:
  assumes "ks key = None"
    and "StringToDouble rate = Some error_rate" and "RedisModule_StringToLongLong cap = Some n"
    and "error_rate \<noteq> 0" and "n \<noteq> 0" and "n < UINT32_MAX" and "error_rate < 0 \<or> n < 0"
  shows "BFReserve_RedisCommand e StringToDouble ks [cmd, key, rate, cap] =
           (case SB_NewChain e (word_of_int n) error_rate 0 of
              None \<Rightarrow> Inr (ks, [ReplyWithSimpleString ''ERR could not create filter''])
            | Some sb \<Rightarrow> Inr (ks(key \<mapsto> BFValue sb), [ReplyWithSimpleString ''OK'']))"
  using assms
  by (simp add: BFReserve_RedisCommand_def RedisModule_OpenKey_def bfGetChain_cases
      bfCreateChain_def split: option.splits)

text \<open>
  C5 (as amended). \<^verbatim>\<open>BF.RESERVE\<close> replies an argument error and leaves the keyspace as it
  was when the error rate is not numeric or is zero, or the capacity is not numeric, is
  zero or is \<^verbatim>\<open>UINT32_MAX\<close> or more: the error is ``ERR bad error rate'' when the error
  rate is not numeric; otherwise ``ERR bad capacity'' when the capacity is not numeric or
  is \<^verbatim>\<open>UINT32_MAX\<close> or more; otherwise ``ERR capacity and error must not be 0'' when the
  error rate or the capacity is zero. \<^verbatim>\<open>CF.RESERVE\<close> replies ``Bad capacity'' and leaves
  the keyspace as it was when the capacity is not numeric, and checks nothing else: on an
  absent key every numeric capacity, zero, negative values and values of \<open>2^32\<close> or more
  included, is converted to \<^verbatim>\<open>size_t\<close> and reaches \<^verbatim>\<open>CuckooFilter_Init\<close>, and when that
  returns a filter the command stores it under the key and replies OK.
\<close>

theorem RESERVE_argument_checks:
  "(StringToDouble rate = None \<or> StringToDouble rate = Some 0
      \<or> RedisModule_StringToLongLong cap = None
      \<or> RedisModule_StringToLongLong cap = Some 0
      \<or> (\<exists>n. RedisModule_StringToLongLong cap = Some n \<and> UINT32_MAX \<le> n) \<longrightarrow>
      (\<exists>r. BFReserve_RedisCommand e StringToDouble ks [cmd, key, rate, cap] = Inr (ks, [r])
           \<and> r \<in> set [ReplyWithError ''ERR bad error rate'', ReplyWithError ''ERR bad capacity'',
                        ReplyWithError ''ERR capacity and error must not be 0'']))
   \<and> (StringToDouble rate = None \<longrightarrow>
        BFReserve_RedisCommand e StringToDouble ks [cmd, key, rate, cap] =
          Inr (ks, [ReplyWithError ''ERR bad error rate'']))
   \<and> (StringToDouble rate = Some error_rate
        \<and> (RedisModule_StringToLongLong cap = None
            \<or> (\<exists>n. RedisModule_StringToLongLong cap = Some n \<and> UINT32_MAX \<le> n)) \<longrightarrow>
        BFReserve_RedisCommand e StringToDouble ks [cmd, key, rate, cap] =
          Inr (ks, [ReplyWithError ''ERR bad capacity'']))
   \<and> (StringToDouble rate = Some error_rate
        \<and> RedisModule_StringToLongLong cap = Some n \<and> n < UINT32_MAX
        \<and> (error_rate = 0 \<or> n = 0) \<longrightarrow>
        BFReserve_RedisCommand e StringToDouble ks [cmd, key, rate, cap] =
          Inr (ks, [ReplyWithError ''ERR capacity and error must not be 0'']))
   \<and> (RedisModule_StringToLongLong cap = None \<longrightarrow>
        CFReserve_RedisCommand e ks [cmd, key, cap] = Inr (ks, [ReplyWithError ''Bad capacity'']))
   \<and> (ks key = None \<and> RedisModule_StringToLongLong cap = Some n
        \<and> CuckooFilter_Init e (word_of_int n) = Some cf \<longrightarrow>
        CFReserve_RedisCommand e ks [cmd, key, cap] =
          Inr (ks(key \<mapsto> CFValue (Some cf)), [ReplyWithSimpleString ''OK'']))"
proof (intro conjI impI)
  show "\<exists>r. BFReserve_RedisCommand e StringToDouble ks [cmd, key, rate, cap] = Inr (ks, [r])
           \<and> r \<in> set [ReplyWithError ''ERR bad error rate'', ReplyWithError ''ERR bad capacity'',
                        ReplyWithError ''ERR capacity and error must not be 0'']"
    if "StringToDouble rate = None \<or> StringToDouble rate = Some 0
      \<or> RedisModule_StringToLongLong cap = None
      \<or> RedisModule_StringToLongLong cap = Some 0
      \<or> (\<exists>n. RedisModule_StringToLongLong cap = Some n \<and> UINT32_MAX \<le> n)"
    using that by (rule BFReserve_rejects)
  show "BFReserve_RedisCommand e StringToDouble ks [cmd, key, rate, cap] =
          Inr (ks, [ReplyWithError ''ERR bad error rate''])"
    if "StringToDouble rate = None"
    using that by (rule BFReserve_bad_error_rate)
  show "BFReserve_RedisCommand e StringToDouble ks [cmd, key, rate, cap] =
          Inr (ks, [ReplyWithError ''ERR bad capacity''])"
    if "StringToDouble rate = Some error_rate
        \<and> (RedisModule_StringToLongLong cap = None
            \<or> (\<exists>n. RedisModule_StringToLongLong cap = Some n \<and> UINT32_MAX \<le> n))"
    using that BFReserve_bad_capacity [of StringToDouble rate error_rate cap e ks cmd key]
    by blast
  show "BFReserve_RedisCommand e StringToDouble ks [cmd, key, rate, cap] =
          Inr (ks, [ReplyWithError ''ERR capacity and error must not be 0''])"
    if "StringToDouble rate = Some error_rate
        \<and> RedisModule_StringToLongLong cap = Some n \<and> n < UINT32_MAX
        \<and> (error_rate = 0 \<or> n = 0)"
    using that BFReserve_zero [of StringToDouble rate error_rate cap n e ks cmd key]
    by blast
  show "CFReserve_RedisCommand e ks [cmd, key, cap] = Inr (ks, [ReplyWithError ''Bad capacity''])"
    if "RedisModule_StringToLongLong cap = None"
    using that by (rule CFReserve_rejects)
  show "CFReserve_RedisCommand e ks [cmd, key, cap] =
          Inr (ks(key \<mapsto> CFValue (Some cf)), [ReplyWithSimpleString ''OK''])"
    if "ks key = None \<and> RedisModule_StringToLongLong cap = Some n
        \<and> CuckooFilter_Init e (word_of_int n) = Some cf"
    using that CFReserve_numeric_capacity_accepted [of ks key cap n e cf cmd]
    by blast
qed

text \<open>
  The claim as stated fails for \<^verbatim>\<open>CF.RESERVE\<close> with the capacities 0 and \<open>2^32\<close>:
  whatever \<^verbatim>\<open>CuckooFilter_Init\<close> does, the command stores a value under the key and the
  reply is not ``Bad capacity''; with a constructor that returns a filter the reply is OK
  and the filter is stored.
\<close>

theorem RESERVE_argument_checks_counterexample:
  "(\<forall>e. \<exists>ks' r. CFReserve_RedisCommand e Map.empty [''CF.RESERVE'', ''k'', ''0''] = Inr (ks', [r])
            \<and> ks' ''k'' \<noteq> None \<and> r \<noteq> ReplyWithError ''Bad capacity'')
   \<and> (\<forall>e. \<exists>ks' r. CFReserve_RedisCommand e Map.empty [''CF.RESERVE'', ''k'', ''4294967296''] = Inr (ks', [r])
            \<and> ks' ''k'' \<noteq> None \<and> r \<noteq> ReplyWithError ''Bad capacity'')
   \<and> CFReserve_RedisCommand example_engines Map.empty [''CF.RESERVE'', ''k'', ''0''] =
     Inr (Map.empty(''k'' \<mapsto> CFValue (Some \<lparr>numBuckets = 2, numItems = 0, numDeletes = 0,
            numFilters = 1, filters_cf = [''    '']\<rparr>)),
          [ReplyWithSimpleString ''OK''])
   \<and> CFReserve_RedisCommand example_engines Map.empty [''CF.RESERVE'', ''k'', ''4294967296''] =
     Inr (Map.empty(''k'' \<mapsto> CFValue (Some \<lparr>numBuckets = 2, numItems = 0, numDeletes = 0,
            numFilters = 1, filters_cf = [''    '']\<rparr>)),
          [ReplyWithSimpleString ''OK''])"
proof (intro conjI allI)
  fix e :: engines
  have absent: "(Map.empty :: keyspace) ''k'' = None"
    by simp
  show "\<exists>ks' r. CFReserve_RedisCommand e Map.empty [''CF.RESERVE'', ''k'', ''0''] = Inr (ks', [r])
            \<and> ks' ''k'' \<noteq> None \<and> r \<noteq> ReplyWithError ''Bad capacity''"
    unfolding CFReserve_numeric_capacity_on_absent_key
      [of Map.empty "''k''" "''0''" 0 e "''CF.RESERVE''", OF absent StringToLongLong_zero]
    by (simp split: option.splits)
  show "\<exists>ks' r. CFReserve_RedisCommand e Map.empty [''CF.RESERVE'', ''k'', ''4294967296''] = Inr (ks', [r])
            \<and> ks' ''k'' \<noteq> None \<and> r \<noteq> ReplyWithError ''Bad capacity''"
    unfolding CFReserve_numeric_capacity_on_absent_key
      [of Map.empty "''k''" "''4294967296''" 4294967296 e "''CF.RESERVE''",
        OF absent StringToLongLong_examples(3)]
    by (simp split: option.splits)
next
  show "CFReserve_RedisCommand example_engines Map.empty [''CF.RESERVE'', ''k'', ''0''] =
     Inr (Map.empty(''k'' \<mapsto> CFValue (Some \<lparr>numBuckets = 2, numItems = 0, numDeletes = 0,
            numFilters = 1, filters_cf = [''    '']\<rparr>)),
          [ReplyWithSimpleString ''OK''])"
    by (simp add: CFReserve_RedisCommand_def StringToLongLong_zero
        RedisModule_OpenKey_def cfGetFilter_cases cfCreate_def example_engines_def)
  show "CFReserve_RedisCommand example_engines Map.empty [''CF.RESERVE'', ''k'', ''4294967296''] =
     Inr (Map.empty(''k'' \<mapsto> CFValue (Some \<lparr>numBuckets = 2, numItems = 0, numDeletes = 0,
            numFilters = 1, filters_cf = [''    '']\<rparr>)),
          [ReplyWithSimpleString ''OK''])"
    by (simp add: CFReserve_RedisCommand_def StringToLongLong_examples
        RedisModule_OpenKey_def cfGetFilter_cases cfCreate_def example_engines_def)
qed

theorem RESERVE_argument_checks_witness:
  "example_StringToDouble ''abc'' = None
   \<and> BFReserve_RedisCommand example_engines example_StringToDouble Map.empty
        [''BF.RESERVE'', ''k'', ''abc'', ''100''] = Inr (Map.empty, [ReplyWithError ''ERR bad error rate''])
   \<and> example_StringToDouble ''0.01'' = Some (1 / 100)
   \<and> RedisModule_StringToLongLong ''4294967296'' = Some 4294967296 \<and> UINT32_MAX \<le> 4294967296
   \<and> BFReserve_RedisCommand example_engines example_StringToDouble Map.empty
        [''BF.RESERVE'', ''k'', ''0.01'', ''4294967296''] = Inr (Map.empty, [ReplyWithError ''ERR bad capacity''])
   \<and> example_StringToDouble ''0'' = Some 0
   \<and> RedisModule_StringToLongLong ''100'' = Some 100 \<and> 100 < UINT32_MAX
   \<and> BFReserve_RedisCommand example_engines example_StringToDouble Map.empty
        [''BF.RESERVE'', ''k'', ''0'', ''100''] =
        Inr (Map.empty, [ReplyWithError ''ERR capacity and error must not be 0''])
   \<and> RedisModule_StringToLongLong ''0'' = Some 0
   \<and> (\<exists>r. BFReserve_RedisCommand example_engines example_StringToDouble Map.empty
          [''BF.RESERVE'', ''k'', ''0.01'', ''0''] = Inr (Map.empty, [r])
        \<and> r \<in> set [ReplyWithError ''ERR bad error rate'', ReplyWithError ''ERR bad capacity'',
                     ReplyWithError ''ERR capacity and error must not be 0''])
   \<and> RedisModule_StringToLongLong ''abc'' = None
   \<and> CFReserve_RedisCommand example_engines Map.empty [''CF.RESERVE'', ''k'', ''abc''] =
        Inr (Map.empty, [ReplyWithError ''Bad capacity''])
   \<and> (Map.empty :: keyspace) ''k'' = None
   \<and> CuckooFilter_Init example_engines (word_of_int 0) =
        Some \<lparr>numBuckets = 2, numItems = 0, numDeletes = 0, numFilters = 1, filters_cf = [''    '']\<rparr>
   \<and> CFReserve_RedisCommand example_engines Map.empty [''CF.RESERVE'', ''k'', ''0''] =
        Inr (Map.empty(''k'' \<mapsto> CFValue (Some \<lparr>numBuckets = 2, numItems = 0, numDeletes = 0,
               numFilters = 1, filters_cf = [''    '']\<rparr>)),
             [ReplyWithSimpleString ''OK''])"
proof -
  let ?cf = "\<lparr>numBuckets = 2, numItems = 0, numDeletes = 0, numFilters = 1, filters_cf = [''    '']\<rparr>"
  have big: "UINT32_MAX \<le> 4294967296" and small: "(100 :: int) < UINT32_MAX"
    by (simp_all add: UINT32_MAX_def)
  have absent: "(Map.empty :: keyspace) ''k'' = None"
    by simp
  have init: "CuckooFilter_Init example_engines (word_of_int 0) = Some ?cf"
    by (simp add: example_engines_def)
  note parsed = example_StringToDouble_values StringToLongLong_examples StringToLongLong_zero
  have r1: "BFReserve_RedisCommand example_engines example_StringToDouble Map.empty
        [''BF.RESERVE'', ''k'', ''abc'', ''100''] = Inr (Map.empty, [ReplyWithError ''ERR bad error rate''])"
    using RESERVE_argument_checks [where StringToDouble = example_StringToDouble
        and rate = "''abc''" and cap = "''100''" and e = example_engines and ks = Map.empty
        and cmd = "''BF.RESERVE''" and key = "''k''", THEN conjunct2, THEN conjunct1]
      parsed(5)
    by (rule mp)
  have r2: "BFReserve_RedisCommand example_engines example_StringToDouble Map.empty
        [''BF.RESERVE'', ''k'', ''0.01'', ''4294967296''] = Inr (Map.empty, [ReplyWithError ''ERR bad capacity''])"
    using RESERVE_argument_checks [where StringToDouble = example_StringToDouble
        and rate = "''0.01''" and cap = "''4294967296''" and e = example_engines
        and ks = Map.empty and cmd = "''BF.RESERVE''" and key = "''k''"
        and error_rate = "1 / 100", THEN conjunct2, THEN conjunct2, THEN conjunct1]
      parsed(1) parsed(8) big
    by blast
  have r3: "BFReserve_RedisCommand example_engines example_StringToDouble Map.empty
        [''BF.RESERVE'', ''k'', ''0'', ''100''] =
        Inr (Map.empty, [ReplyWithError ''ERR capacity and error must not be 0''])"
    using RESERVE_argument_checks [where StringToDouble = example_StringToDouble
        and rate = "''0''" and cap = "''100''" and e = example_engines
        and ks = Map.empty and cmd = "''BF.RESERVE''" and key = "''k''"
        and error_rate = 0 and n = 100,
        THEN conjunct2, THEN conjunct2, THEN conjunct2, THEN conjunct1]
      parsed(4) parsed(6) small
    by blast
  have r4: "\<exists>r. BFReserve_RedisCommand example_engines example_StringToDouble Map.empty
          [''BF.RESERVE'', ''k'', ''0.01'', ''0''] = Inr (Map.empty, [r])
        \<and> r \<in> set [ReplyWithError ''ERR bad error rate'', ReplyWithError ''ERR bad capacity'',
                     ReplyWithError ''ERR capacity and error must not be 0'']"
    using RESERVE_argument_checks [where StringToDouble = example_StringToDouble
        and rate = "''0.01''" and cap = "''0''" and e = example_engines
        and ks = Map.empty and cmd = "''BF.RESERVE''" and key = "''k''", THEN conjunct1]
      StringToLongLong_zero
    by blast
  have r5: "CFReserve_RedisCommand example_engines Map.empty [''CF.RESERVE'', ''k'', ''abc''] =
        Inr (Map.empty, [ReplyWithError ''Bad capacity''])"
    using RESERVE_argument_checks [where cap = "''abc''" and e = example_engines
        and ks = Map.empty and cmd = "''CF.RESERVE''" and key = "''k''",
        THEN conjunct2, THEN conjunct2, THEN conjunct2, THEN conjunct2, THEN conjunct1]
      parsed(7)
    by (rule mp)
  have r6: "CFReserve_RedisCommand example_engines Map.empty [''CF.RESERVE'', ''k'', ''0''] =
        Inr (Map.empty(''k'' \<mapsto> CFValue (Some ?cf)), [ReplyWithSimpleString ''OK''])"
    using RESERVE_argument_checks [where cap = "''0''" and e = example_engines
        and ks = Map.empty and cmd = "''CF.RESERVE''" and key = "''k''" and n = 0 and cf = ?cf,
        THEN conjunct2, THEN conjunct2, THEN conjunct2, THEN conjunct2, THEN conjunct2]
      absent StringToLongLong_zero init
    by blast
  from parsed(1) parsed(4) parsed(5) parsed(6) parsed(7) parsed(8) StringToLongLong_zero
    big small absent init r1 r2 r3 r4 r5 r6
  show ?thesis
    by blast
qed

subsection \<open>Loading bloom snapshots of both versions\<close>

lemma refused_version:
  assumes "1 < encver"
  shows "BFRdbLoad double_mul io encver = Inr (None, io)"
    and "CFRdbLoad e io encver = Inr (None, io)"
  using assms by (simp_all add: BFRdbLoad_def CFRdbLoad_def BF_ENCODING_VERSION_def)

text \<open>One layer in the legacy format and one in the current format.\<close>

lemma BFRdbLoad_link_legacy:
  assumes "- 1 < double_mul (real (unat (ucast v_entries :: 32 word))) v_bpe"
    and "double_mul (real (unat (ucast v_entries :: 32 word))) v_bpe < 2 ^ 64"
  shows "BFRdbLoad_link double_mul 0
           (RdbUnsigned v_entries # RdbDouble v_error # RdbUnsigned v_hashes # RdbDouble v_bpe #
            RdbStringBuffer buf # RdbUnsigned v_size # rest) =
         Inr (\<lparr>inner = \<lparr>entries = ucast v_entries, error = v_error, hashes = ucast v_hashes,
                         bpe = v_bpe,
                         bits = word_of_int
                           (if double_mul (real (unat (ucast v_entries :: 32 word))) v_bpe < 0 then 0
                            else \<lfloor>double_mul (real (unat (ucast v_entries :: 32 word))) v_bpe\<rfloor>),
                         n2 = 0, bytes = word_of_nat (length buf), bf = buf\<rparr>,
               size_link = v_size\<rparr>, rest)"
  using assms
  by (simp add: BFRdbLoad_link_def double_to_uint64_def zero_bloom_def Let_def)

lemma BFRdbLoad_link_current:
  "BFRdbLoad_link double_mul 1
     (RdbUnsigned v_entries # RdbDouble v_error # RdbUnsigned v_hashes # RdbDouble v_bpe #
      RdbUnsigned v_bits # RdbUnsigned v_n2 # RdbStringBuffer buf # RdbUnsigned v_size # rest) =
   Inr (\<lparr>inner = \<lparr>entries = ucast v_entries, error = v_error, hashes = ucast v_hashes,
                   bpe = v_bpe, bits = v_bits, n2 = ucast v_n2,
                   bytes = word_of_nat (length buf), bf = buf\<rparr>,
         size_link = v_size\<rparr>, rest)"
  by (simp add: BFRdbLoad_link_def zero_bloom_def Let_def)

text \<open>
  The product is the machine's: where it rounds 10 times the double next to 0.7 up to 7,
  the layer is loaded with 7 bits, although the exact product is below 7.
\<close>

lemma legacy_bits_follow_the_rounded_product:
  assumes "double_mul 10 (3152519739159347 / 2 ^ 52) = 7"
  shows "BFRdbLoad_link double_mul 0
           [RdbUnsigned 10, RdbDouble 0, RdbUnsigned 1, RdbDouble (3152519739159347 / 2 ^ 52),
            RdbStringBuffer [], RdbUnsigned 0] =
         Inr (\<lparr>inner = \<lparr>entries = 10, error = 0, hashes = 1,
                         bpe = 3152519739159347 / 2 ^ 52, bits = 7, n2 = 0, bytes = 0, bf = []\<rparr>,
               size_link = 0\<rparr>, [])"
  using assms
  by (simp add: BFRdbLoad_link_def double_to_uint64_def zero_bloom_def Let_def)

text \<open>The loop over a snapshot that holds the layers one after the other.\<close>

lemma BFRdbLoad_loop_legacy:
  assumes "list_all (\<lambda>(en, er, h, bp, buf, s).
             - 1 < double_mul (real (unat (ucast en :: 32 word))) bp
             \<and> double_mul (real (unat (ucast en :: 32 word))) bp < 2 ^ 64) ls"
  shows "BFRdbLoad_loop double_mul 0 (length ls)
           (concat (map (\<lambda>(en, er, h, bp, buf, s).
              [RdbUnsigned en, RdbDouble er, RdbUnsigned h, RdbDouble bp, RdbStringBuffer buf,
               RdbUnsigned s]) ls) @ rest) =
         Inr (map (\<lambda>(en, er, h, bp, buf, s).
                \<lparr>inner = \<lparr>entries = ucast en, error = er, hashes = ucast h, bpe = bp,
                            bits = word_of_int
                              (if double_mul (real (unat (ucast en :: 32 word))) bp < 0 then 0
                               else \<lfloor>double_mul (real (unat (ucast en :: 32 word))) bp\<rfloor>),
                            n2 = 0, bytes = word_of_nat (length buf), bf = buf\<rparr>,
                  size_link = s\<rparr>) ls, rest)"
  using assms
proof (induction ls)
  case Nil
  then show ?case by simp
next
  case (Cons l ls)
  obtain en er h bp buf s where l: "l = (en, er, h, bp, buf, s)"
    by (cases l)
  from Cons.prems l
  have lo: "- 1 < double_mul (real (unat (ucast en :: 32 word))) bp"
    and hi: "double_mul (real (unat (ucast en :: 32 word))) bp < 2 ^ 64"
    and tail: "list_all (\<lambda>(en, er, h, bp, buf, s).
             - 1 < double_mul (real (unat (ucast en :: 32 word))) bp
             \<and> double_mul (real (unat (ucast en :: 32 word))) bp < 2 ^ 64) ls"
    by simp_all
  show ?case
    by (simp add: l BFRdbLoad_link_legacy [where double_mul = double_mul and v_entries = en and v_bpe = bp, OF lo hi] Cons.IH [OF tail])
qed

lemma BFRdbLoad_loop_current:
  "BFRdbLoad_loop double_mul 1 (length ls)
     (concat (map (\<lambda>(en, er, h, bp, bi, n, buf, s).
        [RdbUnsigned en, RdbDouble er, RdbUnsigned h, RdbDouble bp, RdbUnsigned bi, RdbUnsigned n,
         RdbStringBuffer buf, RdbUnsigned s]) ls) @ rest) =
   Inr (map (\<lambda>(en, er, h, bp, bi, n, buf, s).
          \<lparr>inner = \<lparr>entries = ucast en, error = er, hashes = ucast h, bpe = bp, bits = bi,
                      n2 = ucast n, bytes = word_of_nat (length buf), bf = buf\<rparr>,
            size_link = s\<rparr>) ls, rest)"
proof (induction ls)
  case Nil
  then show ?case by simp
next
  case (Cons l ls)
  obtain en er h bp bi n buf s where l: "l = (en, er, h, bp, bi, n, buf, s)"
    by (metis surj_pair)
  show ?case
    by (simp add: l BFRdbLoad_link_current Cons.IH)
qed

lemma small_count:
  assumes "length ls < 1000"
  shows "(word_of_nat (length ls) :: 64 word) < 1000"
    and "unat (word_of_nat (length ls) :: 64 word) = length ls"
proof -
  show u: "unat (word_of_nat (length ls) :: 64 word) = length ls"
    using assms by (simp add: unat_of_nat)
  then show "(word_of_nat (length ls) :: 64 word) < 1000"
    using assms by (simp add: word_less_nat_alt)
qed

lemma BFRdbLoad_legacy_snapshot:
  assumes "length ls < 1000"
    and "list_all (\<lambda>(en, er, h, bp, buf, s).
           - 1 < double_mul (real (unat (ucast en :: 32 word))) bp
           \<and> double_mul (real (unat (ucast en :: 32 word))) bp < 2 ^ 64) ls"
  shows "BFRdbLoad double_mul
           ([RdbUnsigned sz, RdbUnsigned (word_of_nat (length ls))] @
            concat (map (\<lambda>(en, er, h, bp, buf, s).
              [RdbUnsigned en, RdbDouble er, RdbUnsigned h, RdbDouble bp, RdbStringBuffer buf,
               RdbUnsigned s]) ls) @ rest) 0 =
         Inr (Some \<lparr>filters = map (\<lambda>(en, er, h, bp, buf, s).
                      \<lparr>inner = \<lparr>entries = ucast en, error = er, hashes = ucast h, bpe = bp,
                                  bits = word_of_int
                                    (if double_mul (real (unat (ucast en :: 32 word))) bp < 0 then 0
                                     else \<lfloor>double_mul (real (unat (ucast en :: 32 word))) bp\<rfloor>),
                                  n2 = 0, bytes = word_of_nat (length buf), bf = buf\<rparr>,
                        size_link = s\<rparr>) ls,
                    size_chain = sz, nfilters = word_of_nat (length ls)\<rparr>, rest)"
  using small_count [OF assms(1)] BFRdbLoad_loop_legacy [OF assms(2), of rest]
  by (simp add: BFRdbLoad_def BF_ENCODING_VERSION_def)

lemma BFRdbLoad_current_snapshot:
  assumes "length ls < 1000"
  shows "BFRdbLoad double_mul
           ([RdbUnsigned sz, RdbUnsigned (word_of_nat (length ls))] @
            concat (map (\<lambda>(en, er, h, bp, bi, n, buf, s).
              [RdbUnsigned en, RdbDouble er, RdbUnsigned h, RdbDouble bp, RdbUnsigned bi,
               RdbUnsigned n, RdbStringBuffer buf, RdbUnsigned s]) ls) @ rest) 1 =
         Inr (Some \<lparr>filters = map (\<lambda>(en, er, h, bp, bi, n, buf, s).
                      \<lparr>inner = \<lparr>entries = ucast en, error = er, hashes = ucast h, bpe = bp,
                                  bits = bi, n2 = ucast n, bytes = word_of_nat (length buf),
                                  bf = buf\<rparr>,
                        size_link = s\<rparr>) ls,
                    size_chain = sz, nfilters = word_of_nat (length ls)\<rparr>, rest)"
  using small_count [OF assms] BFRdbLoad_loop_current [of double_mul ls rest]
  by (simp add: BFRdbLoad_def BF_ENCODING_VERSION_def)

text \<open>
  Whatever the snapshot is, a chain loaded with version 0 has \<^verbatim>\<open>n2 = 0\<close> and the converted
  product as \<^verbatim>\<open>bits\<close> in every layer.
\<close>

lemma BFRdbLoad_link_legacy_fields:
  assumes "BFRdbLoad_link double_mul 0 io = Inr (lb, io')"
  shows "n2 (inner lb) = 0
         \<and> double_to_uint64 (double_mul (real (unat (entries (inner lb)))) (bpe (inner lb))) =
             Inr (bits (inner lb))"
  using assms
  unfolding BFRdbLoad_link_def Let_def
  by (auto simp add: zero_bloom_def split: sum.splits dest!: then_load_Inr)

lemma BFRdbLoad_loop_legacy_fields:
  assumes "BFRdbLoad_loop double_mul 0 n io = Inr (lbs, io')"
  shows "\<forall>lb \<in> set lbs. n2 (inner lb) = 0
           \<and> double_to_uint64 (double_mul (real (unat (entries (inner lb)))) (bpe (inner lb))) =
               Inr (bits (inner lb))"
  using assms
proof (induction n arbitrary: io lbs io')
  case 0
  then show ?case by simp
next
  case (Suc n)
  from Suc.prems obtain lb io1 where link: "BFRdbLoad_link double_mul 0 io = Inr (lb, io1)"
    and after: "then_load (BFRdbLoad_loop double_mul 0 n io1) (\<lambda>lbs io2. Inr (lb # lbs, io2)) =
      Inr (lbs, io')"
    by (auto dest!: then_load_Inr)
  from after obtain tl_lbs io2 where loop: "BFRdbLoad_loop double_mul 0 n io1 = Inr (tl_lbs, io2)"
    and shape: "lbs = lb # tl_lbs"
    by (auto dest!: then_load_Inr)
  from BFRdbLoad_link_legacy_fields [OF link] Suc.IH [OF loop] shape show ?case
    by simp
qed

lemma BFRdbLoad_legacy_fields:
  assumes "BFRdbLoad double_mul io 0 = Inr (Some sb, io')"
  shows "\<forall>lb \<in> set (filters sb). n2 (inner lb) = 0
           \<and> double_to_uint64 (double_mul (real (unat (entries (inner lb)))) (bpe (inner lb))) =
               Inr (bits (inner lb))"
proof -
  from assms obtain n io2 lbs where "BFRdbLoad_loop double_mul 0 n io2 = Inr (lbs, io')"
    and "filters sb = lbs"
    by (auto simp add: BFRdbLoad_def BF_ENCODING_VERSION_def split: if_splits
        dest!: then_load_Inr)
  then show ?thesis
    using BFRdbLoad_loop_legacy_fields by blast
qed

text \<open>
  C7. The load callbacks of both types return no object, and read nothing, when the
  snapshot's version is above 1. A bloom snapshot of version 0 holds the chain's size, the
  number of layers (below 1000) and, for each layer, \<^verbatim>\<open>entries\<close>, \<^verbatim>\<open>error\<close>,
  \<^verbatim>\<open>hashes\<close>, \<^verbatim>\<open>bpe\<close>, the buffer and the layer's size; \<^verbatim>\<open>BFRdbLoad\<close> loads it as
  the chain of these layers, each with \<^verbatim>\<open>bits\<close> set to the machine's product of
  \<^verbatim>\<open>entries\<close> and \<^verbatim>\<open>bpe\<close> converted to an unsigned integer and with \<^verbatim>\<open>n2 = 0\<close>. A
  snapshot of version 1 holds \<^verbatim>\<open>bits\<close> and \<^verbatim>\<open>n2\<close> after \<^verbatim>\<open>bpe\<close>, and \<^verbatim>\<open>BFRdbLoad\<close>
  loads the layers with the \<^verbatim>\<open>bits\<close> and \<^verbatim>\<open>n2\<close> of the snapshot. Whatever a snapshot of
  version 0 holds, a chain loaded from it has \<^verbatim>\<open>n2 = 0\<close> and the converted product as
  \<^verbatim>\<open>bits\<close> in every layer.
\<close>

theorem RdbLoad_versions:
  "(1 < encver \<longrightarrow>
      BFRdbLoad double_mul io encver = Inr (None, io) \<and> CFRdbLoad e io encver = Inr (None, io))
   \<and> (length legacy < 1000
       \<and> list_all (\<lambda>(en, er, h, bp, buf, s).
            - 1 < double_mul (real (unat (ucast en :: 32 word))) bp
            \<and> double_mul (real (unat (ucast en :: 32 word))) bp < 2 ^ 64) legacy \<longrightarrow>
       BFRdbLoad double_mul
         ([RdbUnsigned sz, RdbUnsigned (word_of_nat (length legacy))] @
          concat (map (\<lambda>(en, er, h, bp, buf, s).
            [RdbUnsigned en, RdbDouble er, RdbUnsigned h, RdbDouble bp, RdbStringBuffer buf,
             RdbUnsigned s]) legacy) @ rest) 0 =
       Inr (Some \<lparr>filters = map (\<lambda>(en, er, h, bp, buf, s).
                    \<lparr>inner = \<lparr>entries = ucast en, error = er, hashes = ucast h, bpe = bp,
                                bits = word_of_int
                                  (if double_mul (real (unat (ucast en :: 32 word))) bp < 0 then 0
                                   else \<lfloor>double_mul (real (unat (ucast en :: 32 word))) bp\<rfloor>),
                                n2 = 0, bytes = word_of_nat (length buf), bf = buf\<rparr>,
                      size_link = s\<rparr>) legacy,
                  size_chain = sz, nfilters = word_of_nat (length legacy)\<rparr>, rest))
   \<and> (length current < 1000 \<longrightarrow>
       BFRdbLoad double_mul
         ([RdbUnsigned sz, RdbUnsigned (word_of_nat (length current))] @
          concat (map (\<lambda>(en, er, h, bp, bi, n, buf, s).
            [RdbUnsigned en, RdbDouble er, RdbUnsigned h, RdbDouble bp, RdbUnsigned bi,
             RdbUnsigned n, RdbStringBuffer buf, RdbUnsigned s]) current) @ rest) 1 =
       Inr (Some \<lparr>filters = map (\<lambda>(en, er, h, bp, bi, n, buf, s).
                    \<lparr>inner = \<lparr>entries = ucast en, error = er, hashes = ucast h, bpe = bp,
                                bits = bi, n2 = ucast n, bytes = word_of_nat (length buf),
                                bf = buf\<rparr>,
                      size_link = s\<rparr>) current,
                  size_chain = sz, nfilters = word_of_nat (length current)\<rparr>, rest))
   \<and> (BFRdbLoad double_mul snapshot 0 = Inr (Some sb, io') \<longrightarrow>
       (\<forall>lb \<in> set (filters sb). n2 (inner lb) = 0
          \<and> double_to_uint64 (double_mul (real (unat (entries (inner lb)))) (bpe (inner lb))) =
              Inr (bits (inner lb))))"
  using refused_version(1) [of encver double_mul io] refused_version(2) [of encver e io]
    BFRdbLoad_legacy_snapshot [of legacy double_mul sz rest]
    BFRdbLoad_current_snapshot [of current double_mul sz rest]
    BFRdbLoad_legacy_fields [of double_mul snapshot sb io']
  by blast

theorem RdbLoad_versions_witness:
  "(1 :: int) < 2
   \<and> BFRdbLoad exact_product legacy_snapshot 2 = Inr (None, legacy_snapshot)
   \<and> CFRdbLoad example_engines legacy_snapshot 2 = Inr (None, legacy_snapshot)
   \<and> length [(100 :: 64 word, 1 / 100 :: real, 7 :: 64 word, 19 / 2 :: real, ''abc'', 1 :: 64 word)]
        < 1000
   \<and> - 1 < exact_product (real (unat (ucast (100 :: 64 word) :: 32 word))) (19 / 2)
   \<and> exact_product (real (unat (ucast (100 :: 64 word) :: 32 word))) (19 / 2) < 2 ^ 64
   \<and> BFRdbLoad exact_product legacy_snapshot 0 = Inr (Some example_chain, [])
   \<and> BFRdbLoad exact_product
        [RdbUnsigned 1, RdbUnsigned 1, RdbUnsigned 100, RdbDouble (1 / 100), RdbUnsigned 7,
         RdbDouble (19 / 2), RdbUnsigned 950, RdbUnsigned 0, RdbStringBuffer ''abc'',
         RdbUnsigned 1] 1 =
      Inr (Some example_chain, [])
   \<and> list_all (\<lambda>lb. n2 (inner lb) = 0 \<and> bits (inner lb) = 950) (filters example_chain)"
proof -
  let ?legacy = "[(100 :: 64 word, 1 / 100 :: real, 7 :: 64 word, 19 / 2 :: real, ''abc'',
      1 :: 64 word)]"
  let ?current = "[(100 :: 64 word, 1 / 100 :: real, 7 :: 64 word, 19 / 2 :: real, 950 :: 64 word,
      0 :: 64 word, ''abc'', 1 :: 64 word)]"
  have lo: "- 1 < exact_product (real (unat (ucast (100 :: 64 word) :: 32 word))) (19 / 2)"
    and hi: "exact_product (real (unat (ucast (100 :: 64 word) :: 32 word))) (19 / 2) < 2 ^ 64"
    by (simp_all add: exact_product_def)
  have range: "list_all (\<lambda>(en, er, h, bp, buf, s).
      - 1 < exact_product (real (unat (ucast en :: 32 word))) bp
      \<and> exact_product (real (unat (ucast en :: 32 word))) bp < 2 ^ 64) ?legacy"
    using lo hi by simp
  note inst = RdbLoad_versions [where encver = 2 and double_mul = exact_product
      and io = legacy_snapshot and e = example_engines and legacy = ?legacy and sz = 1
      and rest = "[]" and current = ?current and snapshot = legacy_snapshot
      and sb = example_chain and io' = "[]"]
  have r1: "BFRdbLoad exact_product legacy_snapshot 2 = Inr (None, legacy_snapshot)"
    and r2: "CFRdbLoad example_engines legacy_snapshot 2 = Inr (None, legacy_snapshot)"
    using inst [THEN conjunct1] by simp_all
  have r3: "BFRdbLoad exact_product legacy_snapshot 0 = Inr (Some example_chain, [])"
    using inst [THEN conjunct2, THEN conjunct1] range
    by (simp add: legacy_snapshot_def example_chain_def exact_product_def)
  have r4: "BFRdbLoad exact_product
        [RdbUnsigned 1, RdbUnsigned 1, RdbUnsigned 100, RdbDouble (1 / 100), RdbUnsigned 7,
         RdbDouble (19 / 2), RdbUnsigned 950, RdbUnsigned 0, RdbStringBuffer ''abc'',
         RdbUnsigned 1] 1 =
      Inr (Some example_chain, [])"
    using inst [THEN conjunct2, THEN conjunct2, THEN conjunct1]
    by (simp add: example_chain_def)
  have "\<forall>lb \<in> set (filters example_chain). n2 (inner lb) = 0
          \<and> double_to_uint64 (exact_product (real (unat (entries (inner lb)))) (bpe (inner lb))) =
              Inr (bits (inner lb))"
    using inst [THEN conjunct2, THEN conjunct2, THEN conjunct2] r3 by blast
  then have r5: "list_all (\<lambda>lb. n2 (inner lb) = 0 \<and> bits (inner lb) = 950) (filters example_chain)"
    by (simp add: example_chain_def)
  show ?thesis
    using lo hi r1 r2 r3 r4 r5 by simp
qed

text \<open>
  A chain saved in the current format loads back unchanged, \<^verbatim>\<open>bits\<close> and \<^verbatim>\<open>n2\<close> of every
  layer included, when it has \<^verbatim>\<open>nfilters\<close> layers, fewer than 1000, each with a buffer of
  \<^verbatim>\<open>bytes\<close> bytes.
\<close>

lemma BFRdbLoad_link_reads_back:
  assumes "length (bf (inner lb)) = unat (bytes (inner lb))"
  shows "BFRdbLoad_link double_mul 1 (BFRdbSave_link lb @ rest) = Inr (lb, rest)"
proof -
  have narrow32: "ucast (ucast w :: 64 word) = w" for w :: "32 word"
    by (rule ucast_up_ucast_id) (simp add: is_up)
  have narrow8: "ucast (ucast w :: 64 word) = w" for w :: "8 word"
    by (rule ucast_up_ucast_id) (simp add: is_up)
  show ?thesis
    using assms
    by (simp add: BFRdbLoad_link_def BFRdbSave_link_def zero_bloom_def Let_def narrow32 narrow8)
qed

lemma BFRdbLoad_loop_reads_back:
  assumes "\<forall>lb \<in> set lbs. length (bf (inner lb)) = unat (bytes (inner lb))"
  shows "BFRdbLoad_loop double_mul 1 (length lbs) (concat (map BFRdbSave_link lbs) @ rest) =
           Inr (lbs, rest)"
  using assms by (induction lbs) (simp_all add: BFRdbLoad_link_reads_back)

lemma BFRdb_save_load:
  assumes "length (filters sb) = unat (nfilters sb)" and "nfilters sb < 1000"
    and "\<forall>lb \<in> set (filters sb). length (bf (inner lb)) = unat (bytes (inner lb))"
  shows "\<exists>io. BFRdbSave sb = Inr io \<and> BFRdbLoad double_mul (io @ rest) 1 = Inr (Some sb, rest)"
proof -
  have saved: "BFRdbSave sb =
      Inr ([RdbUnsigned (size_chain sb), RdbUnsigned (nfilters sb)] @
           concat (map BFRdbSave_link (filters sb)))"
    using assms(1,3) by (simp add: BFRdbSave_def)
  have "BFRdbLoad double_mul (([RdbUnsigned (size_chain sb), RdbUnsigned (nfilters sb)] @
           concat (map BFRdbSave_link (filters sb))) @ rest) 1 = Inr (Some sb, rest)"
    using assms(2) BFRdbLoad_loop_reads_back [OF assms(3), of double_mul rest] assms(1)
    by (simp add: BFRdbLoad_def BF_ENCODING_VERSION_def)
  with saved show ?thesis
    by blast
qed

subsection \<open>Saving and loading a cuckoo filter\<close>

lemma CFRdbLoad_loop_reads_back:
  assumes "\<forall>b \<in> set bufs. length b = bucket_array_bytes e cf"
  shows "CFRdbLoad_loop e cf (length bufs) (map RdbStringBuffer bufs @ rest) = Inr (bufs, rest)"
  using assms by (induction bufs) simp_all

lemma CFRdbSave_well_formed:
  assumes "length (filters_cf cf) = unat (numFilters cf)"
    and "\<forall>b \<in> set (filters_cf cf). length b = bucket_array_bytes e cf"
  shows "CFRdbSave e cf =
           Inr ([RdbUnsigned (numFilters cf), RdbUnsigned (numBuckets cf),
                 RdbUnsigned (numItems cf)] @ map RdbStringBuffer (filters_cf cf))"
proof -
  have "map (\<lambda>b. RdbStringBuffer (take (bucket_array_bytes e cf) b)) (filters_cf cf) =
        map RdbStringBuffer (filters_cf cf)"
    using assms(2) by (intro map_cong) simp_all
  with assms show ?thesis
    by (simp add: CFRdbSave_def)
qed

lemma CFRdbSave_ignores_numDeletes:
  "CFRdbSave e (cf\<lparr>numDeletes := d\<rparr>) = CFRdbSave e cf"
  by (simp add: CFRdbSave_def bucket_array_bytes_def)

text \<open>
  C10. For a cuckoo filter whose \<^verbatim>\<open>numFilters\<close> bucket arrays have
  \<^verbatim>\<open>numBuckets * sizeof(CuckooBucket)\<close> bytes each, saving and then loading (with a
  version the loader accepts) gives the same filter with \<^verbatim>\<open>numDeletes\<close> set to 0:
  \<^verbatim>\<open>numFilters\<close>, \<^verbatim>\<open>numBuckets\<close>, \<^verbatim>\<open>numItems\<close> and every byte of the bucket arrays
  are as before, and the snapshot does not depend on \<^verbatim>\<open>numDeletes\<close>.
\<close>

theorem CFRdb_save_load:
  assumes "length (filters_cf cf) = unat (numFilters cf)"
    and "\<forall>b \<in> set (filters_cf cf). length b = bucket_array_bytes e cf"
    and "encver \<le> 1"
  shows "(\<exists>io. CFRdbSave e cf = Inr io
               \<and> CFRdbLoad e (io @ rest) encver = Inr (Some (cf\<lparr>numDeletes := 0\<rparr>), rest))
         \<and> CFRdbSave e (cf\<lparr>numDeletes := d\<rparr>) = CFRdbSave e cf"
proof -
  let ?loaded = "\<lparr>numBuckets = numBuckets cf, numItems = numItems cf, numDeletes = 0,
                  numFilters = numFilters cf, filters_cf = []\<rparr>"
  have bytes: "bucket_array_bytes e ?loaded = bucket_array_bytes e cf"
    by (simp add: bucket_array_bytes_def)
  have loop: "CFRdbLoad_loop e ?loaded (unat (numFilters cf))
                (map RdbStringBuffer (filters_cf cf) @ rest) = Inr (filters_cf cf, rest)"
    using CFRdbLoad_loop_reads_back [of "filters_cf cf" e ?loaded rest] assms(1,2)
    by (simp add: bytes)
  have "CFRdbLoad e (([RdbUnsigned (numFilters cf), RdbUnsigned (numBuckets cf),
            RdbUnsigned (numItems cf)] @ map RdbStringBuffer (filters_cf cf)) @ rest) encver =
        Inr (Some (cf\<lparr>numDeletes := 0\<rparr>), rest)"
    using assms(3) by (simp add: CFRdbLoad_def BF_ENCODING_VERSION_def loop)
  with CFRdbSave_well_formed [OF assms(1,2)] CFRdbSave_ignores_numDeletes show ?thesis
    by blast
qed

lemma example_filter_bytes: "bucket_array_bytes example_engines example_filter = 4"
  by (simp add: bucket_array_bytes_def example_engines_def example_filter_def)

theorem CFRdb_save_load_witness:
  "length (filters_cf example_filter) = unat (numFilters example_filter)
   \<and> list_all (\<lambda>b. length b = bucket_array_bytes example_engines example_filter)
        (filters_cf example_filter)
   \<and> (1 :: int) \<le> 1
   \<and> numDeletes example_filter = 5
   \<and> CFRdbSave example_engines example_filter =
        Inr [RdbUnsigned 1, RdbUnsigned 2, RdbUnsigned 1, RdbStringBuffer ''a   '']
   \<and> CFRdbLoad example_engines
        [RdbUnsigned 1, RdbUnsigned 2, RdbUnsigned 1, RdbStringBuffer ''a   ''] 1 =
        Inr (Some (example_filter\<lparr>numDeletes := 0\<rparr>), [])"
proof -
  have len: "length (filters_cf example_filter) = unat (numFilters example_filter)"
    by (simp add: example_filter_def)
  have each: "\<forall>b \<in> set (filters_cf example_filter).
      length b = bucket_array_bytes example_engines example_filter"
    by (simp add: example_filter_bytes) (simp add: example_filter_def)
  have ver: "(1 :: int) \<le> 1"
    by simp
  have saved: "CFRdbSave example_engines example_filter =
      Inr [RdbUnsigned 1, RdbUnsigned 2, RdbUnsigned 1, RdbStringBuffer ''a   '']"
    by (simp add: CFRdbSave_def example_filter_bytes) (simp add: example_filter_def)
  from CFRdb_save_load [OF len each ver, of "[]" 0]
  have "CFRdbLoad example_engines
        [RdbUnsigned 1, RdbUnsigned 2, RdbUnsigned 1, RdbStringBuffer ''a   ''] 1 =
        Inr (Some (example_filter\<lparr>numDeletes := 0\<rparr>), [])"
    by (simp add: saved)
  with len each saved show ?thesis
    by (simp add: example_filter_def list_all_iff)
qed

end
